theory Spec2Isabelle
  imports Main "HOL-Library.Word" "HOL-Library.AList" "HOL-Library.List_Lexorder"
begin

section \<open>JavaScript values used by the application\<close>

subsection \<open>Strings\<close>

text \<open>
  A JavaScript string is a sequence of UTF-16 code units: \<open>s.length\<close> counts code units
  and \<open>s.substring(0, n)\<close> keeps the first \<open>n\<close> of them. The function \<open>js\<close> writes
  an ASCII literal of the source as such a sequence.
\<close>

type_synonym jsstring = "16 word list"

definition js :: "string \<Rightarrow> jsstring" where
  "js s = map of_char s"

text \<open>
  \<open>String.prototype.trim\<close> strips the code units ECMAScript calls WhiteSpace or
  LineTerminator from both ends.
\<close>

definition isWhiteSpace :: "16 word \<Rightarrow> bool" where
  "isWhiteSpace c \<longleftrightarrow>
     c \<in> {0x0009, 0x000A, 0x000B, 0x000C, 0x000D, 0x0020, 0x00A0, 0x1680,
          0x2028, 0x2029, 0x202F, 0x205F, 0x3000, 0xFEFF}
     \<or> (0x2000 \<le> c \<and> c \<le> 0x200A)"

definition trim :: "jsstring \<Rightarrow> jsstring" where
  "trim s = rev (dropWhile isWhiteSpace (rev (dropWhile isWhiteSpace s)))"

definition endsWith :: "jsstring \<Rightarrow> jsstring \<Rightarrow> bool" where
  "endsWith s e \<longleftrightarrow> length e \<le> length s \<and> drop (length s - length e) s = e"

text \<open>Truthiness of a value typed \<open>string\<close> that may be absent: absent and \<open>""\<close> are falsy.\<close>

fun truthy :: "jsstring option \<Rightarrow> bool" where
  "truthy None = False"
| "truthy (Some s) = (s \<noteq> [])"

text \<open>\<open>a || b\<close> on strings: the left operand unless it is the empty string.\<close>

definition orElse :: "jsstring \<Rightarrow> jsstring \<Rightarrow> jsstring" where
  "orElse a b = (if a = [] then b else a)"

subsection \<open>Plain objects used as dictionaries\<close>

text \<open>
  The \<open>files\<close> value is a plain object \<open>{ [key: string]: string }\<close>. It is modelled by the
  list of its own properties in the order of their creation. \<open>acc[k] = v\<close> overwrites the
  value of an existing own property where it stands and otherwise creates the property
  last; the one key that creates nothing is \<open>__proto__\<close>, whose inherited setter ignores a
  string. \<open>Object.keys\<close> lists the keys that are array indices (canonical decimal numerals
  below \<open>2^32 - 1\<close>) first, in ascending numeric order, and then all other keys in creation
  order.
\<close>

type_synonym dict = "(jsstring \<times> jsstring) list"

definition assign :: "dict \<Rightarrow> jsstring \<Rightarrow> jsstring \<Rightarrow> dict" where
  "assign acc k v = (if k = js ''__proto__'' then acc else AList.update k v acc)"

definition isDigit :: "16 word \<Rightarrow> bool" where
  "isDigit c \<longleftrightarrow> 0x30 \<le> c \<and> c \<le> 0x39"

definition indexValue :: "jsstring \<Rightarrow> nat" where
  "indexValue s = foldl (\<lambda>n c. 10 * n + (unat c - 48)) 0 s"

definition isArrayIndex :: "jsstring \<Rightarrow> bool" where
  "isArrayIndex s \<longleftrightarrow>
     (case s of
        [] \<Rightarrow> False
      | c # cs \<Rightarrow> list_all isDigit s \<and> (if c = 0x30 then cs = [] else True)
                 \<and> indexValue s < 2 ^ 32 - 1)"

definition objectKeys :: "dict \<Rightarrow> jsstring list" where
  "objectKeys d =
     sort_key indexValue (filter isArrayIndex (map fst d))
     @ filter (\<lambda>k. \<not> isArrayIndex k) (map fst d)"

section \<open>Data model (models/project.model)\<close>

text \<open>
  The fields keep their names behind a prefix for the interface they belong to, since
  \<open>id\<close>, \<open>name\<close>, \<open>label\<close> and \<open>prompt\<close> name several things in the source (and \<open>id\<close> and
  \<open>value\<close> are taken in HOL): \<open>proj_id\<close> is \<open>GeneratedProject.id\<close>, \<open>fw_label\<close> is
  \<open>Framework.label\<close>, and so on.
\<close>

record Framework =
  fw_value :: jsstring
  fw_label :: jsstring
  fw_description :: jsstring

record Feature =
  ft_id :: jsstring
  ft_label :: jsstring
  ft_category :: jsstring

record Agent =
  ag_id :: jsstring
  ag_name :: jsstring
  ag_role :: jsstring
  ag_gradient :: jsstring

record GeneratedProject =
  proj_id :: jsstring
  proj_name :: jsstring
  proj_prompt :: jsstring
  proj_framework :: Framework
  files :: dict
  dependencies :: "jsstring list"
  explanation :: jsstring
  build_commands :: "jsstring list"

section \<open>Generation Client (GeminiService)\<close>

text \<open>
  The generative model is outside the program. What a call to it yields is a parameter of
  the model: either the call fails (the request is rejected, or the text that comes back
  is not JSON with an array of objects under \<open>files\<close>), or it yields the parsed object
  \<open>rawResponse\<close>. A file entry of that object may lack \<open>path\<close> or \<open>content\<close>. The fresh
  id \<open>new Date().toISOString() + Math.random()\<close> is a parameter as well. Both service
  methods replace whatever was thrown by an error with a fixed message.
\<close>

record RawFile =
  path :: "jsstring option"
  content :: "jsstring option"

record RawResponse =
  raw_files :: "RawFile list"
  raw_dependencies :: "jsstring list"
  raw_explanation :: jsstring
  raw_build_commands :: "jsstring list"

datatype reply = Failure jsstring | Response RawResponse

datatype error = Error (message: jsstring)

definition addFile :: "dict \<Rightarrow> RawFile \<Rightarrow> dict" where
  "addFile acc file =
     (if truthy (path file) \<and> truthy (content file)
      then (case (path file, content file) of
              (Some p, Some c) \<Rightarrow> assign acc p c
            | _ \<Rightarrow> acc)
      else acc)"

definition filesDictionary :: "RawFile list \<Rightarrow> dict" where
  "filesDictionary fs = foldl addFile [] fs"

definition projectName :: "jsstring \<Rightarrow> jsstring" where
  "projectName originalPrompt =
     (if length originalPrompt > 50 then take 47 originalPrompt @ js ''...''
      else originalPrompt)"

definition callGenerativeModel ::
  "reply \<Rightarrow> jsstring \<Rightarrow> jsstring \<Rightarrow> Framework \<Rightarrow> error + GeneratedProject" where
  "callGenerativeModel r newId originalPrompt framework =
     (case r of
        Failure msg \<Rightarrow> Inl (Error msg)
      | Response rawResponse \<Rightarrow>
          (let generatedProject =
                 \<lparr> proj_id = newId,
                   proj_name = projectName originalPrompt,
                   proj_prompt = originalPrompt,
                   proj_framework = framework,
                   files = filesDictionary (raw_files rawResponse),
                   dependencies = raw_dependencies rawResponse,
                   explanation = raw_explanation rawResponse,
                   build_commands = raw_build_commands rawResponse \<rparr>
           in if length (objectKeys (files generatedProject)) = 0
              then Inl (Error (js ''AI response is missing valid file structure.''))
              else Inr generatedProject))"

definition generationFailure :: jsstring where
  "generationFailure =
     js (''Failed to generate project. The AI model may be overloaded '' @
         ''or the request was invalid. Please check your prompt and try again.'')"

definition modificationFailure :: jsstring where
  "modificationFailure =
     js (''Failed to modify project. The AI model may be overloaded '' @
         ''or the request was invalid.'')"

definition generateProject ::
  "reply \<Rightarrow> jsstring \<Rightarrow> jsstring \<Rightarrow> Framework \<Rightarrow> Feature list \<Rightarrow> error + GeneratedProject" where
  "generateProject r newId prompt framework features =
     (case callGenerativeModel r newId prompt framework of
        Inr project \<Rightarrow> Inr project
      | Inl e \<Rightarrow> Inl (Error generationFailure))"

definition modifyProject ::
  "reply \<Rightarrow> jsstring \<Rightarrow> jsstring \<Rightarrow> GeneratedProject \<Rightarrow> error + GeneratedProject" where
  "modifyProject r newId prompt existingProject =
     (case callGenerativeModel r newId (proj_prompt existingProject)
             (proj_framework existingProject) of
        Inr modifiedCore \<Rightarrow>
          Inr (existingProject
                 \<lparr> files := files modifiedCore,
                   dependencies := dependencies modifiedCore,
                   explanation := explanation modifiedCore,
                   build_commands := build_commands modifiedCore \<rparr>)
      | Inl e \<Rightarrow> Inl (Error modificationFailure))"

section \<open>Project History Store (ProjectHistoryService)\<close>

text \<open>
  The store keeps one serialised array under a fixed key of the browser's storage. The
  value under that key is modelled by the array it parses to, \<open>None\<close> standing for a key
  that is absent or whose text does not parse (both make \<open>getProjects\<close> return \<open>[]\<close>);
  serialising and parsing keep every string and the \<open>Object.keys\<close> order of every object.
  \<open>localStorage.setItem\<close> may throw (a full quota); the service catches and logs that, so
  whether the write is accepted is a parameter of the two writing operations.
\<close>

type_synonym storage = "GeneratedProject list option"

fun findIndex :: "('a \<Rightarrow> bool) \<Rightarrow> 'a list \<Rightarrow> nat option" where
  "findIndex P [] = None"
| "findIndex P (x # xs) = (if P x then Some 0 else map_option Suc (findIndex P xs))"

definition getProjects :: "storage \<Rightarrow> GeneratedProject list" where
  "getProjects st = (case st of None \<Rightarrow> [] | Some projects \<Rightarrow> projects)"

definition getProject :: "storage \<Rightarrow> jsstring \<Rightarrow> GeneratedProject option" where
  "getProject st i = find (\<lambda>p. proj_id p = i) (getProjects st)"

definition setItem :: "bool \<Rightarrow> GeneratedProject list \<Rightarrow> storage \<Rightarrow> storage" where
  "setItem accepted projects st = (if accepted then Some projects else st)"

definition saveProject :: "bool \<Rightarrow> GeneratedProject \<Rightarrow> storage \<Rightarrow> storage" where
  "saveProject accepted project st =
     (let projects = getProjects st
      in case findIndex (\<lambda>p. proj_id p = proj_id project) projects of
           Some existingIndex \<Rightarrow> setItem accepted (projects[existingIndex := project]) st
         | None \<Rightarrow> setItem accepted (project # projects) st)"

definition deleteProject :: "bool \<Rightarrow> jsstring \<Rightarrow> storage \<Rightarrow> storage" where
  "deleteProject accepted i st =
     setItem accepted (filter (\<lambda>p. proj_id p \<noteq> i) (getProjects st)) st"

section \<open>Workspace Controller (AppComponent)\<close>

subsection \<open>State\<close>

datatype AppState = landing | configuring | generating | completed | my_projects | error_state

datatype WorkspaceTab = tab_assistant | tab_preview | tab_info

datatype Role = user | assistant

text \<open>
  A call of the Generation Client is recorded by the arguments it was made with; the
  prompt text handed to the model is a function of them.
\<close>

datatype request =
    GenerateCall jsstring Framework "Feature list"
  | ModifyCall jsstring GeneratedProject

fun isModifyCall :: "request \<Rightarrow> bool" where
  "isModifyCall (ModifyCall p existingProject) = True"
| "isModifyCall (GenerateCall p framework features) = False"

text \<open>
  The record holds the signals of the component and, after them, the part of the
  environment the component acts on: the storage item of the history service, the
  log of calls made to the Generation Client, the calls whose promise has not settled
  yet, and the stage each running agent simulation resumes at after its next delay.
\<close>

record AppComponent =
  appState :: AppState
  isDarkMode :: bool
  errorMessage :: jsstring
  prompt :: jsstring
  selectedFramework :: "Framework option"
  selectedFeatures :: "jsstring list"
  projectHistory :: "GeneratedProject list"
  activeProject :: "GeneratedProject option"
  activeAgents :: "jsstring list"
  agentLogs :: "(Agent option \<times> jsstring) list"
  selectedFile :: "jsstring option"
  activeWorkspaceTab :: WorkspaceTab
  assistantPrompt :: jsstring
  chatHistory :: "(Role \<times> jsstring) list"
  isModifying :: bool
  selectedPreviewFile :: "jsstring option"
  localStorage :: storage
  sent :: "request list"
  awaiting :: "request list"
  simulations :: "nat list"

subsection \<open>Catalogues\<close>

definition AVAILABLE_FRAMEWORKS :: "Framework list" where
  "AVAILABLE_FRAMEWORKS =
     [\<lparr>fw_value = js ''ASP.NET Core MVC'', fw_label = js ''ASP.NET Core MVC'',
       fw_description = js ''Traditional MVC web application''\<rparr>,
      \<lparr>fw_value = js ''ASP.NET Core Web API'', fw_label = js ''ASP.NET Core Web API'',
       fw_description = js ''RESTful API backend''\<rparr>,
      \<lparr>fw_value = js ''Razor Pages'', fw_label = js ''Razor Pages'',
       fw_description = js ''Page-focused framework''\<rparr>,
      \<lparr>fw_value = js ''Blazor Server'', fw_label = js ''Blazor Server'',
       fw_description = js ''Server-side Blazor app''\<rparr>,
      \<lparr>fw_value = js ''Blazor WebAssembly'', fw_label = js ''Blazor WebAssembly'',
       fw_description = js ''Client-side Blazor app''\<rparr>]"

definition feature :: "string \<Rightarrow> string \<Rightarrow> string \<Rightarrow> Feature" where
  "feature i l c = \<lparr>ft_id = js i, ft_label = js l, ft_category = js c\<rparr>"

text \<open>\<open>Object.values(this.AVAILABLE_FEATURES).flat()\<close>: the categories in declaration order.\<close>

definition allFeatures :: "Feature list" where
  "allFeatures =
     [feature ''identity'' ''ASP.NET Core Identity'' ''security'',
      feature ''jwt'' ''JWT Token Authentication'' ''security'',
      feature ''ef_core'' ''Entity Framework Core'' ''data'',
      feature ''dapper'' ''Dapper ORM'' ''data'',
      feature ''swagger'' ''Swagger/OpenAPI'' ''api'',
      feature ''signalr'' ''SignalR Real-time'' ''api'',
      feature ''bootstrap'' ''Bootstrap 5'' ''ui'',
      feature ''tailwind'' ''Tailwind CSS'' ''ui'',
      feature ''clear_frontend'' ''Clear Frontend Design'' ''ui'',
      feature ''docker'' ''Docker Configuration'' ''devops'',
      feature ''logging'' ''Serilog Logging'' ''infrastructure'',
      feature ''tests'' ''Unit & Integration Tests'' ''infrastructure'']"

definition agent :: "string \<Rightarrow> string \<Rightarrow> string \<Rightarrow> string \<Rightarrow> Agent" where
  "agent i n r g = \<lparr>ag_id = js i, ag_name = js n, ag_role = js r, ag_gradient = js g\<rparr>"

definition AI_AGENTS :: "Agent list" where
  "AI_AGENTS =
     [agent ''team_leader'' ''Team Leader'' ''Project Manager'' ''from-yellow-500 to-orange-500'',
      agent ''coder'' ''AI Coder'' ''Backend Developer'' ''from-blue-500 to-cyan-500'',
      agent ''frontend'' ''UI Architect'' ''UI/UX Developer'' ''from-pink-500 to-rose-500'',
      agent ''database'' ''Database Admin'' ''Data Architect'' ''from-green-500 to-emerald-500'']"

subsection \<open>Derived values\<close>

definition previewableFiles :: "AppComponent \<Rightarrow> jsstring list" where
  "previewableFiles s =
     (case activeProject s of
        None \<Rightarrow> []
      | Some project \<Rightarrow>
          filter (\<lambda>p. endsWith p (js ''.html'') \<or> endsWith p (js ''.cshtml''))
            (objectKeys (files project)))"

definition isGenerationDisabled :: "AppComponent \<Rightarrow> bool" where
  "isGenerationDisabled s \<longleftrightarrow> length (trim (prompt s)) < 10 \<or> selectedFramework s = None"

text \<open>\<open>xs[0] || null\<close> on an array of strings.\<close>

definition firstOrNull :: "jsstring list \<Rightarrow> jsstring option" where
  "firstOrNull xs = (case xs of [] \<Rightarrow> None | x # rest \<Rightarrow> if x = [] then None else Some x)"

subsection \<open>App flow\<close>

definition loadProjects :: "AppComponent \<Rightarrow> AppComponent" where
  "loadProjects s = s\<lparr>projectHistory := getProjects (localStorage s)\<rparr>"

definition resetConfiguration :: "AppComponent \<Rightarrow> AppComponent" where
  "resetConfiguration s =
     s\<lparr>prompt := [], selectedFramework := None, selectedFeatures := [],
       activeProject := None, agentLogs := [], activeAgents := [], chatHistory := []\<rparr>"

definition setAppState :: "AppState \<Rightarrow> AppComponent \<Rightarrow> AppComponent" where
  "setAppState state s =
     (let s1 = s\<lparr>appState := state\<rparr>
      in if state = configuring then resetConfiguration s1 else s1)"

definition startNewProjectFlow :: "AppComponent \<Rightarrow> AppComponent" where
  "startNewProjectFlow s = (resetConfiguration s)\<lparr>appState := configuring\<rparr>"

definition toggleDarkMode :: "AppComponent \<Rightarrow> AppComponent" where
  "toggleDarkMode s = s\<lparr>isDarkMode := \<not> isDarkMode s\<rparr>"

definition selectFramework :: "Framework \<Rightarrow> AppComponent \<Rightarrow> AppComponent" where
  "selectFramework framework s = s\<lparr>selectedFramework := Some framework\<rparr>"

definition toggleFeature :: "jsstring \<Rightarrow> AppComponent \<Rightarrow> AppComponent" where
  "toggleFeature featureId s =
     s\<lparr>selectedFeatures :=
         (if featureId \<in> set (selectedFeatures s)
          then filter (\<lambda>i. i \<noteq> featureId) (selectedFeatures s)
          else selectedFeatures s @ [featureId])\<rparr>"

definition selectFile :: "jsstring option \<Rightarrow> AppComponent \<Rightarrow> AppComponent" where
  "selectFile filePath s = s\<lparr>selectedFile := filePath\<rparr>"

definition getAgentById :: "jsstring \<Rightarrow> Agent option" where
  "getAgentById i = find (\<lambda>a. ag_id a = i) AI_AGENTS"

definition addAgentLog :: "Agent option \<Rightarrow> jsstring \<Rightarrow> AppComponent \<Rightarrow> AppComponent" where
  "addAgentLog a msg s = s\<lparr>agentLogs := agentLogs s @ [(a, msg)]\<rparr>"

subsection \<open>Workspace\<close>

definition initializeWorkspace :: "bool \<Rightarrow> AppComponent \<Rightarrow> AppComponent" where
  \<open>initializeWorkspace isNew s =
     (let greeting =
            (if isNew
             then js (''Your project is ready! I'm your code assistant. '' @
                      ''Ask me to make changes or add features.'')
             else js ''Loaded project "''
                  @ (case activeProject s of None \<Rightarrow> js ''undefined'' | Some p \<Rightarrow> proj_name p)
                  @ js ''". How can I help you modify it?'');
          s1 = s\<lparr>chatHistory := [(assistant, greeting)]\<rparr>;
          firstFile =
            firstOrNull (objectKeys (case activeProject s1 of None \<Rightarrow> [] | Some p \<Rightarrow> files p));
          s2 = selectFile firstFile s1;
          firstPreview = firstOrNull (previewableFiles s2)
      in s2\<lparr>selectedPreviewFile := firstPreview, activeWorkspaceTab := tab_assistant\<rparr>)\<close>

definition loadProject :: "jsstring \<Rightarrow> AppComponent \<Rightarrow> AppComponent" where
  "loadProject projectId s =
     (case getProject (localStorage s) projectId of
        Some project \<Rightarrow>
          initializeWorkspace False (s\<lparr>activeProject := Some project, appState := completed\<rparr>)
      | None \<Rightarrow> s)"

text \<open>\<open>AppComponent.deleteProject\<close>; the name \<open>deleteProject\<close> is the service's.\<close>

definition deleteProject_component :: "bool \<Rightarrow> jsstring \<Rightarrow> AppComponent \<Rightarrow> AppComponent" where
  "deleteProject_component accepted projectId s =
     (let s1 = s\<lparr>localStorage := deleteProject accepted projectId (localStorage s)\<rparr>;
          s2 = loadProjects s1
      in if map_option proj_id (activeProject s2) = Some projectId
         then setAppState landing (s2\<lparr>activeProject := None\<rparr>)
         else s2)"

subsection \<open>Agent simulation\<close>

text \<open>
  \<open>runAgentSimulation\<close> is started and never awaited. It runs up to its first delay at
  once and registers the stage it resumes at; each later stage runs when its delay has
  passed (\<open>resumeAgentSimulation\<close>, for the simulation at position \<open>i\<close>).
\<close>

definition withAgents ::
  "(Agent \<Rightarrow> Agent \<Rightarrow> Agent \<Rightarrow> Agent \<Rightarrow> AppComponent) \<Rightarrow> AppComponent \<Rightarrow> AppComponent" where
  "withAgents body s =
     (case (getAgentById (js ''team_leader''), getAgentById (js ''coder''),
            getAgentById (js ''frontend''), getAgentById (js ''database'')) of
        (Some teamLeader, Some coder, Some frontend, Some dbAdmin) \<Rightarrow>
          body teamLeader coder frontend dbAdmin
      | _ \<Rightarrow> s)"

definition runAgentSimulation :: "AppComponent \<Rightarrow> AppComponent" where
  "runAgentSimulation s =
     withAgents (\<lambda>teamLeader coder frontend dbAdmin.
       (addAgentLog (Some teamLeader) (js ''Analyzing project requirements...'')
          (s\<lparr>activeAgents := [ag_id teamLeader]\<rparr>))
       \<lparr>simulations := simulations s @ [1]\<rparr>) s"

definition simulationStage :: "nat \<Rightarrow> AppComponent \<Rightarrow> AppComponent" where
  "simulationStage k s =
     withAgents (\<lambda>teamLeader coder frontend dbAdmin.
       if k = 1 then
         (addAgentLog (Some teamLeader) (js ''Assembling AI development team...'') s)
         \<lparr>activeAgents := [ag_id teamLeader, ag_id coder, ag_id frontend, ag_id dbAdmin]\<rparr>
       else if k = 2 then addAgentLog (Some coder) (js ''Scaffolding backend structure...'') s
       else if k = 3 then addAgentLog (Some dbAdmin) (js ''Designing database schema...'') s
       else if k = 4 then addAgentLog (Some frontend) (js ''Planning UI components...'') s
       else addAgentLog (Some teamLeader)
              (js (''Team is now generating the full codebase. '' @
                   ''This may take a moment...'')) s) s"

definition resumeAgentSimulation :: "nat \<Rightarrow> AppComponent \<Rightarrow> AppComponent" where
  "resumeAgentSimulation i s =
     (if i < length (simulations s)
      then (let k = simulations s ! i
            in (simulationStage k s)
               \<lparr>simulations :=
                  (if k < 5 then (simulations s)[i := Suc k]
                   else take i (simulations s) @ drop (Suc i) (simulations s))\<rparr>)
      else s)"

subsection \<open>Project generation\<close>

text \<open>
  An \<open>async\<close> handler is modelled in two parts: the part that runs when the handler is
  invoked, up to its \<open>await\<close>, which leaves the call in \<open>awaiting\<close>; and the part that runs
  when the promise settles (\<open>generateSettled\<close>, \<open>modificationSettled\<close>), which takes what
  the model answered, the fresh id and whether the storage accepts the write.
\<close>

definition generateFailed :: "error \<Rightarrow> AppComponent \<Rightarrow> AppComponent" where
  "generateFailed e s =
     (s\<lparr>errorMessage := orElse (message e) (js ''An unknown error occurred.''),
        appState := error_state\<rparr>)
     \<lparr>activeAgents := []\<rparr>"

definition handleGenerateProject :: "AppComponent \<Rightarrow> AppComponent" where
  "handleGenerateProject s =
     (if isGenerationDisabled s then s
      else
        (let s1 = runAgentSimulation (s\<lparr>appState := generating, agentLogs := []\<rparr>)
         in case selectedFramework s1 of
              None \<Rightarrow> generateFailed (Error (js ''Framework not selected'')) s1
            | Some framework \<Rightarrow>
                (let features = filter (\<lambda>f. ft_id f \<in> set (selectedFeatures s1)) allFeatures;
                     call = GenerateCall (prompt s1) framework features
                 in s1\<lparr>sent := sent s1 @ [call], awaiting := awaiting s1 @ [call]\<rparr>)))"

definition generateSettled ::
  "reply \<Rightarrow> jsstring \<Rightarrow> bool \<Rightarrow> jsstring \<Rightarrow> Framework \<Rightarrow> Feature list
     \<Rightarrow> AppComponent \<Rightarrow> AppComponent" where
  "generateSettled r newId accepted p framework features s =
     (case generateProject r newId p framework features of
        Inr project \<Rightarrow>
          (let s1 = s\<lparr>activeProject := Some project\<rparr>;
               s2 = s1\<lparr>localStorage := saveProject accepted project (localStorage s1)\<rparr>;
               s3 = loadProjects s2;
               s4 = s3\<lparr>appState := completed\<rparr>;
               s5 = addAgentLog (getAgentById (js ''team_leader''))
                      (js ''Project generation complete! Review the files below.'') s4;
               s6 = initializeWorkspace True s5
           in s6\<lparr>activeAgents := []\<rparr>)
      | Inl e \<Rightarrow> generateFailed e s)"

subsection \<open>Code assistant\<close>

definition modificationFailed :: "error \<Rightarrow> AppComponent \<Rightarrow> AppComponent" where
  "modificationFailed e s =
     (let errorMessage' = orElse (message e) (js ''An unknown error occurred.'')
      in (s\<lparr>errorMessage := errorMessage',
             chatHistory :=
               chatHistory s @ [(assistant, js ''I encountered an error: '' @ errorMessage')]\<rparr>)
         \<lparr>isModifying := False\<rparr>)"

text \<open>
  In \<open>handleModificationRequest\<close> the branch for an absent project after the guard stands
  for the non-null assertion \<open>this.activeProject()!\<close>; the guard has just seen a project.
\<close>

definition handleModificationRequest :: "AppComponent \<Rightarrow> AppComponent" where
  "handleModificationRequest s =
     (let userPrompt = trim (assistantPrompt s)
      in if userPrompt = [] \<or> activeProject s = None \<or> isModifying s then s
         else
           (let s1 = s\<lparr>isModifying := True\<rparr>;
                s2 = s1\<lparr>chatHistory := chatHistory s1 @ [(user, userPrompt)]\<rparr>;
                s3 = s2\<lparr>assistantPrompt := []\<rparr>
            in case activeProject s3 of
                 Some currentProject \<Rightarrow>
                   (let call = ModifyCall userPrompt currentProject
                    in s3\<lparr>sent := sent s3 @ [call], awaiting := awaiting s3 @ [call]\<rparr>)
               | None \<Rightarrow> modificationFailed (Error modificationFailure) s3))"

definition modificationSettled ::
  "reply \<Rightarrow> jsstring \<Rightarrow> bool \<Rightarrow> jsstring \<Rightarrow> GeneratedProject
     \<Rightarrow> AppComponent \<Rightarrow> AppComponent" where
  "modificationSettled r newId accepted userPrompt currentProject s =
     (case modifyProject r newId userPrompt currentProject of
        Inr updatedProject \<Rightarrow>
          (let s1 = s\<lparr>activeProject := Some updatedProject\<rparr>;
               s2 = s1\<lparr>localStorage := saveProject accepted updatedProject (localStorage s1)\<rparr>;
               s3 = loadProjects s2;
               assistantMessage =
                 (if explanation updatedProject \<noteq> []
                  then js ''I've updated the project: '' @ explanation updatedProject
                  else js (''I've updated the project based on your request. '' @
                           ''Please review the changes.''));
               s4 = s3\<lparr>chatHistory := chatHistory s3 @ [(assistant, assistantMessage)]\<rparr>;
               s5 = (if truthy (selectedPreviewFile s4)
                        \<and> \<not> (selectedPreviewFile s4 \<in> Some ` set (previewableFiles s4))
                     then s4\<lparr>selectedPreviewFile := firstOrNull (previewableFiles s4)\<rparr>
                     else s4)
           in s5\<lparr>isModifying := False\<rparr>)
      | Inl e \<Rightarrow> modificationFailed e s)"

subsection \<open>Events\<close>

text \<open>
  What can happen to the component: the user (through the template, which is taken to
  write only the inputs and the selections) writes a two-way bound input or a selection,
  or invokes a method; a pending call settles; a delay of an agent simulation passes. \<open>settle i\<close> resumes the handler that awaits the call at
  position \<open>i\<close> of \<open>awaiting\<close>.
\<close>

definition settle :: "nat \<Rightarrow> reply \<Rightarrow> jsstring \<Rightarrow> bool \<Rightarrow> AppComponent \<Rightarrow> AppComponent" where
  "settle i r newId accepted s =
     (if i < length (awaiting s)
      then (let s' = s\<lparr>awaiting := take i (awaiting s) @ drop (Suc i) (awaiting s)\<rparr>
            in case awaiting s ! i of
                 GenerateCall p framework features \<Rightarrow>
                   generateSettled r newId accepted p framework features s'
               | ModifyCall userPrompt currentProject \<Rightarrow>
                   modificationSettled r newId accepted userPrompt currentProject s')
      else s)"

datatype event =
    SetPrompt jsstring
  | SetAssistantPrompt jsstring
  | SetWorkspaceTab WorkspaceTab
  | SetPreviewFile "jsstring option"
  | SetAppState AppState
  | StartNewProjectFlow
  | LoadProject jsstring
  | DeleteProject bool jsstring
  | ToggleDarkMode
  | SelectFramework Framework
  | ToggleFeature jsstring
  | SelectFile jsstring
  | GenerateProject
  | ModificationRequest
  | Settle nat reply jsstring bool
  | Delay nat

fun fire :: "event \<Rightarrow> AppComponent \<Rightarrow> AppComponent" where
  "fire (SetPrompt v) s = s\<lparr>prompt := v\<rparr>"
| "fire (SetAssistantPrompt v) s = s\<lparr>assistantPrompt := v\<rparr>"
| "fire (SetWorkspaceTab t) s = s\<lparr>activeWorkspaceTab := t\<rparr>"
| "fire (SetPreviewFile f) s = s\<lparr>selectedPreviewFile := f\<rparr>"
| "fire (SetAppState state) s = setAppState state s"
| "fire StartNewProjectFlow s = startNewProjectFlow s"
| "fire (LoadProject projectId) s = loadProject projectId s"
| "fire (DeleteProject accepted projectId) s = deleteProject_component accepted projectId s"
| "fire ToggleDarkMode s = toggleDarkMode s"
| "fire (SelectFramework framework) s = selectFramework framework s"
| "fire (ToggleFeature featureId) s = toggleFeature featureId s"
| "fire (SelectFile filePath) s = selectFile (Some filePath) s"
| "fire GenerateProject s = handleGenerateProject s"
| "fire ModificationRequest s = handleModificationRequest s"
| "fire (Settle i r newId accepted) s = settle i r newId accepted s"
| "fire (Delay i) s = resumeAgentSimulation i s"

text \<open>
  The component as constructed: the defaults of its signals, then \<open>loadTheme\<close> and
  \<open>loadProjects\<close>, over whatever the browser's storage holds.
\<close>

definition initial :: "bool \<Rightarrow> storage \<Rightarrow> AppComponent" where
  "initial dark st =
     loadProjects
       \<lparr> appState = landing, isDarkMode = dark, errorMessage = [], prompt = [],
         selectedFramework = None, selectedFeatures = [], projectHistory = [],
         activeProject = None, activeAgents = [], agentLogs = [], selectedFile = None,
         activeWorkspaceTab = tab_assistant, assistantPrompt = [], chatHistory = [],
         isModifying = False, selectedPreviewFile = None, localStorage = st,
         sent = [], awaiting = [], simulations = [] \<rparr>"

inductive reachable :: "AppComponent \<Rightarrow> bool" where
  start: "reachable (initial dark st)"
| after: "reachable s \<Longrightarrow> reachable (fire e s)"

section \<open>Reference notions of the specification\<close>

text \<open>
  An entry of the response counts when both its path and its content are present and
  non-empty. \<open>lastContent fs k\<close> is the content of the last entry of \<open>fs\<close> that counts and has
  path \<open>k\<close>.
\<close>

definition validEntry :: "RawFile \<Rightarrow> bool" where
  "validEntry f \<longleftrightarrow> truthy (path f) \<and> truthy (content f)"

definition lastContent :: "RawFile list \<Rightarrow> jsstring \<Rightarrow> jsstring option" where
  "lastContent fs k =
     (let entries = filter (\<lambda>f. validEntry f \<and> path f = Some k) fs
      in if entries = [] then None else content (last entries))"

text \<open>
  The paths of the entries that count, in the order of the response (\<open>__proto__\<close> left
  out, since assigning to it stores nothing), and the first occurrences of a list.
\<close>

definition countingPaths :: "RawFile list \<Rightarrow> jsstring list" where
  "countingPaths fs =
     concat (map (\<lambda>f. case path f of
                         Some p \<Rightarrow> if validEntry f \<and> p \<noteq> js ''__proto__'' then [p] else []
                       | None \<Rightarrow> []) fs)"

definition firstOccurrences :: "'a list \<Rightarrow> 'a list" where
  "firstOccurrences xs = foldl (\<lambda>acc x. if x \<in> set acc then acc else acc @ [x]) [] xs"

text \<open>A path is previewable when it ends in a recognised markup extension.\<close>

definition previewable :: "jsstring \<Rightarrow> bool" where
  "previewable k \<longleftrightarrow> endsWith k (js ''.html'') \<or> endsWith k (js ''.cshtml'')"

text \<open>
  The first file in path order, as the specification words it: the least path in the
  lexicographic order of code units, which is the order of \<open>Array.prototype.sort\<close> on
  strings and the order in which the file tree displays the paths.
\<close>

definition firstInPathOrder :: "dict \<Rightarrow> jsstring option" where
  "firstInPathOrder d = (case sort (objectKeys d) of [] \<Rightarrow> None | k # rest \<Rightarrow> Some k)"

text \<open>The number of modification calls in flight, and its agreement with the flag.\<close>

definition pendingModifications :: "AppComponent \<Rightarrow> nat" where
  "pendingModifications s = length (filter isModifyCall (awaiting s))"

definition balanced :: "AppComponent \<Rightarrow> bool" where
  "balanced s \<longleftrightarrow> pendingModifications s = (if isModifying s then 1 else 0)"

section \<open>Sample data\<close>

definition example_framework :: Framework where
  "example_framework =
     \<lparr>fw_value = js ''ASP.NET Core MVC'', fw_label = js ''ASP.NET Core MVC'',
      fw_description = js ''Traditional MVC web application''\<rparr>"

definition rawFile :: "string \<Rightarrow> string \<Rightarrow> RawFile" where
  "rawFile p c = \<lparr>path = Some (js p), content = Some (js c)\<rparr>"

definition example_response :: RawResponse where
  "example_response =
     \<lparr>raw_files =
        [rawFile ''b.cs'' ''class B'',
         rawFile ''a.cs'' ''class A'',
         rawFile '''' ''no path'',
         \<lparr>path = None, content = Some (js ''absent path'')\<rparr>,
         rawFile ''Views/Home.cshtml'' ''<h1>Home</h1>'',
         rawFile ''empty.cs'' '''',
         rawFile ''a.cs'' ''class A2''],
      raw_dependencies = [js ''Serilog''],
      raw_explanation = js ''Added logging'',
      raw_build_commands = [js ''dotnet build'']\<rparr>"

definition invalid_response :: RawResponse where
  "invalid_response =
     \<lparr>raw_files = [rawFile '''' ''no path'', rawFile ''empty.cs'' '''',
                   \<lparr>path = Some (js ''only path''), content = None\<rparr>],
      raw_dependencies = [js ''Serilog''],
      raw_explanation = js ''Nothing usable'',
      raw_build_commands = []\<rparr>"

definition example_files :: dict where
  "example_files =
     [(js ''b.cs'', js ''class B''), (js ''a.cs'', js ''class A2''),
      (js ''Views/Home.cshtml'', js ''<h1>Home</h1>'')]"

definition example_project :: GeneratedProject where
  "example_project =
     \<lparr>proj_id = js ''2024-01-01T00:00:00.000Z0.5'',
      proj_name = js ''Build a blog with comments'',
      proj_prompt = js ''Build a blog with comments'',
      proj_framework = example_framework,
      files = [(js ''Program.cs'', js ''main'')],
      dependencies = [],
      explanation = js ''A blog'',
      build_commands = [js ''dotnet run'']\<rparr>"

definition example_modified :: GeneratedProject where
  "example_modified =
     example_project\<lparr>files := example_files, dependencies := [js ''Serilog''],
       explanation := js ''Added logging'', build_commands := [js ''dotnet build'']\<rparr>"

definition example_generated :: GeneratedProject where
  "example_generated =
     \<lparr>proj_id = js ''id1'', proj_name = js ''Build a blog with comments'',
      proj_prompt = js ''Build a blog with comments'', proj_framework = example_framework,
      files = example_files, dependencies = [js ''Serilog''],
      explanation = js ''Added logging'', build_commands = [js ''dotnet build'']\<rparr>"

definition long_prompt :: jsstring where
  "long_prompt = js ''Build an online store with a catalogue, a cart and a checkout''"

definition stored :: "string \<Rightarrow> string \<Rightarrow> GeneratedProject" where
  "stored i e = example_project\<lparr>proj_id := js i, explanation := js e\<rparr>"

definition example_storage :: storage where
  "example_storage =
     Some [stored ''p1'' ''first'', stored ''p2'' ''second'', stored ''p3'' ''third'']"

definition duplicate_storage :: storage where
  "duplicate_storage =
     Some [stored ''p1'' ''first'', stored ''p2'' ''second'', stored ''p2'' ''copy'',
           stored ''p3'' ''third'']"

text \<open>
  A run of the component: a new project is configured, generated and completed, and a
  modification is requested and fails.
\<close>

definition example_configured :: AppComponent where
  "example_configured =
     fire (SelectFramework example_framework)
       (fire (SetPrompt (js ''Build a blog with comments''))
          (fire StartNewProjectFlow (initial False example_storage)))"

definition example_short :: AppComponent where
  "example_short = fire (SetPrompt (js ''  a blog   '')) example_configured"

definition example_unselected :: AppComponent where
  "example_unselected =
     fire (SetPrompt (js ''Build a blog with comments''))
       (fire StartNewProjectFlow (initial False example_storage))"

definition example_generating :: AppComponent where
  "example_generating = fire GenerateProject example_configured"

definition example_completed :: AppComponent where
  "example_completed =
     fire (Settle 0 (Response example_response) (js ''id1'') True) example_generating"

definition example_modifying :: AppComponent where
  "example_modifying =
     fire ModificationRequest
       (fire (SetAssistantPrompt (js '' add logging '')) example_completed)"

definition example_failed :: AppComponent where
  "example_failed = fire (Settle 0 (Failure (js ''503'')) (js ''id2'') True) example_modifying"

section \<open>Objects and the file dictionary\<close>

lemma length_objectKeys: "length (objectKeys d) = length d"
  unfolding objectKeys_def
  using sum_length_filter_compl[of isArrayIndex "map fst d"]
  by (simp add: o_def)

lemma set_objectKeys: "set (objectKeys d) = fst ` set d"
  unfolding objectKeys_def by auto

text \<open>Without a key that is an array index, \<open>Object.keys\<close> is the order of creation.\<close>

lemma objectKeys_plain:
  "list_all (\<lambda>k. \<not> isArrayIndex k) (map fst d) \<Longrightarrow> objectKeys d = map fst d"
proof -
  assume a: "list_all (\<lambda>k. \<not> isArrayIndex k) (map fst d)"
  then have "filter isArrayIndex (map fst d) = []"
    by (simp add: list_all_iff filter_empty_conv)
  moreover have "filter (\<lambda>k. \<not> isArrayIndex k) (map fst d) = map fst d"
    using a by (simp add: list_all_iff)
  ultimately show ?thesis
    unfolding objectKeys_def by simp
qed

lemma addFile_valid:
  "validEntry f \<Longrightarrow> \<exists>p c. path f = Some p \<and> content f = Some c \<and> p \<noteq> [] \<and> c \<noteq> []
      \<and> addFile acc f = assign acc p c"
  unfolding validEntry_def addFile_def
  by (cases "path f"; cases "content f") auto

lemma addFile_invalid: "\<not> validEntry f \<Longrightarrow> addFile acc f = acc"
  unfolding validEntry_def addFile_def by auto

lemma filesDictionary_snoc:
  "filesDictionary (fs @ [f]) = addFile (filesDictionary fs) f"
  by (simp add: filesDictionary_def)

lemma lastContent_snoc:
  "lastContent (fs @ [f]) k =
     (if validEntry f \<and> path f = Some k then content f else lastContent fs k)"
  unfolding lastContent_def by simp

lemma map_of_assign:
  "map_of (assign acc p c) k =
     (if p = k \<and> k \<noteq> js ''__proto__'' then Some c else map_of acc k)"
  unfolding assign_def by (auto simp: update_conv')

lemma map_of_filesDictionary:
  "map_of (filesDictionary fs) k =
     (if k = js ''__proto__'' then None else lastContent fs k)"
proof (induction fs rule: rev_induct)
  case Nil
  show ?case by (simp add: filesDictionary_def lastContent_def)
next
  case (snoc f fs)
  show ?case
  proof (cases "validEntry f")
    case True
    then obtain p c where pc: "path f = Some p" "content f = Some c"
      "addFile (filesDictionary fs) f = assign (filesDictionary fs) p c"
      using addFile_valid by blast
    show ?thesis
      using True pc snoc.IH
      by (cases "k = js ''__proto__''")
         (simp_all add: filesDictionary_snoc lastContent_snoc map_of_assign)
  next
    case False
    then show ?thesis
      using snoc.IH by (simp add: filesDictionary_snoc lastContent_snoc addFile_invalid)
  qed
qed

lemma distinct_assign:
  "distinct (map fst acc) \<Longrightarrow> distinct (map fst (assign acc p c))"
  unfolding assign_def by (simp add: distinct_update)

lemma distinct_filesDictionary: "distinct (map fst (filesDictionary fs))"
proof (induction fs rule: rev_induct)
  case Nil
  show ?case by (simp add: filesDictionary_def)
next
  case (snoc f fs)
  show ?case
  proof (cases "validEntry f")
    case True
    then obtain p c where "addFile (filesDictionary fs) f = assign (filesDictionary fs) p c"
      using addFile_valid by blast
    then show ?thesis using snoc.IH by (simp add: filesDictionary_snoc distinct_assign)
  next
    case False
    then show ?thesis using snoc.IH by (simp add: filesDictionary_snoc addFile_invalid)
  qed
qed

lemma lastContent_SomeD:
  "lastContent fs k = Some v \<Longrightarrow>
     \<exists>f \<in> set fs. validEntry f \<and> path f = Some k \<and> content f = Some v"
proof (induction fs rule: rev_induct)
  case Nil
  then show ?case by (simp add: lastContent_def)
next
  case (snoc f fs)
  then show ?case by (auto simp: lastContent_snoc split: if_splits)
qed

lemma filesDictionary_entry:
  assumes "(k, v) \<in> set (filesDictionary fs)"
  shows "k \<noteq> [] \<and> v \<noteq> [] \<and> (\<exists>f \<in> set fs. path f = Some k \<and> content f = Some v)"
proof -
  have "map_of (filesDictionary fs) k = Some v"
    using assms distinct_filesDictionary by simp
  then have "lastContent fs k = Some v"
    by (simp add: map_of_filesDictionary split: if_splits)
  then obtain f where f: "f \<in> set fs" "validEntry f" "path f = Some k" "content f = Some v"
    using lastContent_SomeD by blast
  then show ?thesis by (auto simp: validEntry_def)
qed

lemma filesDictionary_filter:
  "filesDictionary (filter validEntry fs) = filesDictionary fs"
proof (induction fs rule: rev_induct)
  case Nil
  show ?case by simp
next
  case (snoc f fs)
  then show ?case
    by (cases "validEntry f") (simp_all add: filesDictionary_snoc addFile_invalid)
qed

lemma filesDictionary_all_invalid:
  "list_all (\<lambda>f. \<not> validEntry f) fs \<Longrightarrow> filesDictionary fs = []"
proof -
  assume "list_all (\<lambda>f. \<not> validEntry f) fs"
  then have "filter validEntry fs = []" by (induction fs) auto
  then show ?thesis using filesDictionary_filter[of fs] by (simp add: filesDictionary_def)
qed

text \<open>
  The keys of the dictionary are the paths of the entries that count, but for
  \<open>__proto__\<close>, which is never stored.
\<close>

lemma filesDictionary_keys:
  "k \<in> fst ` set (filesDictionary fs) \<longleftrightarrow>
     k \<noteq> js ''__proto__'' \<and> (\<exists>f \<in> set fs. validEntry f \<and> path f = Some k)"
proof -
  have "k \<in> fst ` set (filesDictionary fs) \<longleftrightarrow> map_of (filesDictionary fs) k \<noteq> None"
    by (simp add: map_of_eq_None_iff)
  also have "\<dots> \<longleftrightarrow> k \<noteq> js ''__proto__'' \<and> lastContent fs k \<noteq> None"
    by (simp add: map_of_filesDictionary)
  also have "lastContent fs k \<noteq> None \<longleftrightarrow> (\<exists>f \<in> set fs. validEntry f \<and> path f = Some k)"
  proof (induction fs rule: rev_induct)
    case Nil
    show ?case by (simp add: lastContent_def)
  next
    case (snoc f fs)
    show ?case
    proof (cases "validEntry f \<and> path f = Some k")
      case True
      then have "content f \<noteq> None" by (cases "content f") (simp_all add: validEntry_def)
      then show ?thesis using True by (auto simp: lastContent_snoc)
    next
      case False
      then show ?thesis using snoc.IH by (auto simp: lastContent_snoc)
    qed
  qed
  finally show ?thesis .
qed

text \<open>
  The keys of the dictionary stand in the order in which their paths first occur among
  the entries that count.
\<close>

lemma keys_assign:
  "map fst (assign acc p c) =
     (if p = js ''__proto__'' \<or> p \<in> set (map fst acc) then map fst acc else map fst acc @ [p])"
  unfolding assign_def by (simp add: update_keys)

lemma firstOccurrences_snoc:
  "firstOccurrences (xs @ [x]) =
     (if x \<in> set (firstOccurrences xs) then firstOccurrences xs else firstOccurrences xs @ [x])"
  by (simp add: firstOccurrences_def)

lemma keys_filesDictionary:
  "map fst (filesDictionary fs) = firstOccurrences (countingPaths fs)"
proof (induction fs rule: rev_induct)
  case Nil
  show ?case by (simp add: filesDictionary_def firstOccurrences_def countingPaths_def)
next
  case (snoc f fs)
  show ?case
  proof (cases "validEntry f")
    case True
    then obtain p c where pc: "path f = Some p"
      "addFile (filesDictionary fs) f = assign (filesDictionary fs) p c"
      using addFile_valid by blast
    have "countingPaths (fs @ [f])
        = countingPaths fs @ (if p \<noteq> js ''__proto__'' then [p] else [])"
      using True pc(1) by (simp add: countingPaths_def)
    then show ?thesis
      using pc(2) snoc.IH
      by (simp add: filesDictionary_snoc keys_assign firstOccurrences_snoc)
  next
    case False
    then have "countingPaths (fs @ [f]) = countingPaths fs"
      by (simp add: countingPaths_def split: option.splits)
    then show ?thesis
      using False snoc.IH by (simp add: filesDictionary_snoc addFile_invalid)
  qed
qed

section \<open>Generation Client\<close>

lemma callGenerativeModel_Inr:
  "callGenerativeModel r newId pr fw = Inr p \<Longrightarrow>
     \<exists>raw. r = Response raw \<and> filesDictionary (raw_files raw) \<noteq> [] \<and>
       p = \<lparr>proj_id = newId, proj_name = projectName pr, proj_prompt = pr, proj_framework = fw,
            files = filesDictionary (raw_files raw), dependencies = raw_dependencies raw,
            explanation = raw_explanation raw, build_commands = raw_build_commands raw\<rparr>"
  unfolding callGenerativeModel_def
  by (cases r) (auto simp: Let_def length_objectKeys split: if_splits)

lemma callGenerativeModel_Response:
  "callGenerativeModel (Response raw) newId pr fw =
     (if filesDictionary (raw_files raw) = []
      then Inl (Error (js ''AI response is missing valid file structure.''))
      else Inr \<lparr>proj_id = newId, proj_name = projectName pr, proj_prompt = pr,
             proj_framework = fw, files = filesDictionary (raw_files raw),
             dependencies = raw_dependencies raw, explanation = raw_explanation raw,
             build_commands = raw_build_commands raw\<rparr>)"
  unfolding callGenerativeModel_def
  by (simp add: Let_def length_objectKeys)

lemma callGenerativeModel_files:
  "callGenerativeModel r newId pr fw = Inr p \<Longrightarrow>
     \<exists>fs. files p = filesDictionary fs \<and> files p \<noteq> []"
  unfolding callGenerativeModel_def
  by (cases r) (auto simp: Let_def length_objectKeys split: if_splits)

lemma generateProject_Inr:
  "generateProject r newId pr fw features = Inr p \<Longrightarrow> callGenerativeModel r newId pr fw = Inr p"
  unfolding generateProject_def by (auto split: sum.splits)

lemma modifyProject_Inr:
  "modifyProject r newId ins ex = Inr p \<Longrightarrow>
     \<exists>core. callGenerativeModel r newId (proj_prompt ex) (proj_framework ex) = Inr core \<and>
       p = ex\<lparr>files := files core, dependencies := dependencies core,
              explanation := explanation core, build_commands := build_commands core\<rparr>"
  unfolding modifyProject_def by (auto split: sum.splits)

lemma modifyProject_Inl:
  "modifyProject r newId userPrompt currentProject = Inl e \<Longrightarrow>
     e = Error modificationFailure"
  unfolding modifyProject_def by (auto split: sum.splits)

subsection \<open>The sample response\<close>

lemma filesDictionary_example: "filesDictionary (raw_files example_response) = example_files"
  by (simp add: example_response_def example_files_def filesDictionary_def addFile_def
        assign_def rawFile_def js_def)

lemma generateProject_example:
  "generateProject (Response example_response) newId pr fw features =
     Inr \<lparr>proj_id = newId, proj_name = projectName pr, proj_prompt = pr, proj_framework = fw,
          files = example_files, dependencies = [js ''Serilog''],
          explanation = js ''Added logging'', build_commands = [js ''dotnet build'']\<rparr>"
  by (simp add: generateProject_def callGenerativeModel_Response filesDictionary_example
          example_files_def) (simp add: example_response_def)

lemma modifyProject_example:
  "modifyProject (Response example_response) newId instruction example_project
     = Inr example_modified"
  by (simp add: modifyProject_def callGenerativeModel_Response filesDictionary_example
        example_files_def example_modified_def) (simp add: example_response_def)

lemma trim_example_prompt:
  "trim (js ''Build a blog with comments'') = js ''Build a blog with comments''"
  "length (js ''Build a blog with comments'') = 26"
  "trim (js '' add logging '') = js ''add logging''"
  "js ''add logging'' \<noteq> []"
  by (simp_all add: js_def trim_def isWhiteSpace_def)

lemma generateProject_example_generated:
  "generateProject (Response example_response) (js ''id1'') (js ''Build a blog with comments'')
     example_framework [] = Inr example_generated"
  by (simp add: generateProject_example example_generated_def projectName_def
        trim_example_prompt)

subsection \<open>Modification keeps the identity of the project\<close>

text \<open>
  C1. Whenever \<open>modifyProject\<close> succeeds on an existing project, the project it returns has
  the id, prompt, framework and name of the existing project, and is the existing project
  with exactly \<open>files\<close>, \<open>dependencies\<close>, \<open>explanation\<close> and \<open>build_commands\<close> replaced by
  what the response holds (the file array turned into the dictionary).
\<close>

theorem modifyProject_frame:
  assumes "modifyProject r newId instruction existingProject = Inr p"
  shows "proj_id p = proj_id existingProject \<and> proj_prompt p = proj_prompt existingProject
     \<and> proj_framework p = proj_framework existingProject
     \<and> proj_name p = proj_name existingProject
     \<and> (\<exists>raw. r = Response raw
          \<and> p = existingProject
                  \<lparr>files := filesDictionary (raw_files raw),
                   dependencies := raw_dependencies raw,
                   explanation := raw_explanation raw,
                   build_commands := raw_build_commands raw\<rparr>)"
proof -
  obtain core where core:
    "callGenerativeModel r newId (proj_prompt existingProject) (proj_framework existingProject)
       = Inr core"
    "p = existingProject\<lparr>files := files core, dependencies := dependencies core,
           explanation := explanation core, build_commands := build_commands core\<rparr>"
    using modifyProject_Inr[OF assms] by blast
  obtain raw where raw: "r = Response raw"
    "files core = filesDictionary (raw_files raw)" "dependencies core = raw_dependencies raw"
    "explanation core = raw_explanation raw" "build_commands core = raw_build_commands raw"
    using callGenerativeModel_Inr[OF core(1)] by auto
  show ?thesis using core(2) raw by simp
qed

theorem modifyProject_frame_witness:
  "modifyProject (Response example_response) (js ''fresh'') (js ''add logging'') example_project
     = Inr example_modified
   \<and> proj_id example_modified = js ''2024-01-01T00:00:00.000Z0.5''
   \<and> proj_prompt example_modified = js ''Build a blog with comments''
   \<and> proj_framework example_modified = example_framework
   \<and> proj_name example_modified = js ''Build a blog with comments''
   \<and> files example_modified = example_files
   \<and> explanation example_modified = js ''Added logging''"
proof -
  have run: "modifyProject (Response example_response) (js ''fresh'') (js ''add logging'')
      example_project = Inr example_modified"
    by (rule modifyProject_example)
  have fields: "proj_id example_modified = js ''2024-01-01T00:00:00.000Z0.5''"
    "proj_prompt example_modified = js ''Build a blog with comments''"
    "proj_framework example_modified = example_framework"
    "proj_name example_modified = js ''Build a blog with comments''"
    "files example_modified = example_files"
    "explanation example_modified = js ''Added logging''"
    by (simp_all add: example_modified_def example_project_def)
  show ?thesis
    using modifyProject_frame[OF run] run fields by simp
qed

subsection \<open>An empty file dictionary is a failure\<close>

text \<open>
  C2. When the response yields an empty file dictionary (in particular when none of its
  entries counts), \<open>generateProject\<close> and \<open>modifyProject\<close> fail with an error instead of
  returning a project; and every project either of them returns has a non-empty \<open>files\<close>.
\<close>

theorem empty_files_rejected:
  "(filesDictionary (raw_files raw) = [] \<longrightarrow>
      (\<exists>e. generateProject (Response raw) newId pr fw features = Inl e)
      \<and> (\<exists>e. modifyProject (Response raw) newId' instruction existingProject = Inl e))
   \<and> (list_all (\<lambda>f. \<not> validEntry f) (raw_files raw) \<longrightarrow> filesDictionary (raw_files raw) = [])
   \<and> (generateProject r newId pr fw features = Inr p \<longrightarrow> files p \<noteq> [])
   \<and> (modifyProject r newId' instruction existingProject = Inr p' \<longrightarrow> files p' \<noteq> [])"
proof (intro conjI impI)
  assume "filesDictionary (raw_files raw) = []"
  then show "\<exists>e. generateProject (Response raw) newId pr fw features = Inl e"
    by (simp add: generateProject_def callGenerativeModel_Response)
next
  assume "filesDictionary (raw_files raw) = []"
  then show "\<exists>e. modifyProject (Response raw) newId' instruction existingProject = Inl e"
    by (simp add: modifyProject_def callGenerativeModel_Response)
next
  assume "list_all (\<lambda>f. \<not> validEntry f) (raw_files raw)"
  then show "filesDictionary (raw_files raw) = []"
    by (rule filesDictionary_all_invalid)
next
  assume "generateProject r newId pr fw features = Inr p"
  then have "callGenerativeModel r newId pr fw = Inr p"
    by (rule generateProject_Inr)
  from callGenerativeModel_files[OF this] show "files p \<noteq> []" by auto
next
  assume "modifyProject r newId' instruction existingProject = Inr p'"
  from modifyProject_Inr[OF this] obtain core where core:
    "callGenerativeModel r newId' (proj_prompt existingProject) (proj_framework existingProject)
       = Inr core"
    "files p' = files core"
    by auto
  from callGenerativeModel_files[OF core(1)] core(2) show "files p' \<noteq> []" by auto
qed

theorem empty_files_rejected_witness:
  "filesDictionary (raw_files invalid_response) = []
   \<and> list_all (\<lambda>f. \<not> validEntry f) (raw_files invalid_response)
   \<and> (\<exists>e. generateProject (Response invalid_response) (js ''id1'')
            (js ''Build a blog with comments'') example_framework [] = Inl e)
   \<and> (\<exists>e. modifyProject (Response invalid_response) (js ''id2'') (js ''add logging'')
            example_project = Inl e)
   \<and> generateProject (Response example_response) (js ''id1'')
        (js ''Build a blog with comments'') example_framework [] = Inr example_generated
   \<and> files example_generated \<noteq> []
   \<and> modifyProject (Response example_response) (js ''id2'') (js ''add logging'')
        example_project = Inr example_modified
   \<and> files example_modified \<noteq> []"
proof -
  have inv: "list_all (\<lambda>f. \<not> validEntry f) (raw_files invalid_response)"
    by (simp add: invalid_response_def validEntry_def rawFile_def js_def)
  have gen: "generateProject (Response example_response) (js ''id1'')
      (js ''Build a blog with comments'') example_framework [] = Inr example_generated"
    by (rule generateProject_example_generated)
  have mod: "modifyProject (Response example_response) (js ''id2'') (js ''add logging'')
        example_project = Inr example_modified"
    by (rule modifyProject_example)
  show ?thesis
    using inv gen mod
      empty_files_rejected[of invalid_response "js ''id1''" "js ''Build a blog with comments''"
        example_framework "[]" "js ''id2''" "js ''add logging''" example_project
        "Response example_response" example_generated example_modified]
    by simp
qed

subsection \<open>The name of a generated project\<close>

text \<open>
  C8. The name of a newly generated project comes from the prompt by truncation: a prompt
  of at most 50 characters (UTF-16 code units, as \<open>length\<close> counts them) is the name
  itself; a longer prompt gives its first 47 characters followed by three dots, 50
  characters in all.
\<close>

theorem generated_name:
  assumes "generateProject r newId pr fw features = Inr p"
  shows "(length pr \<le> 50 \<longrightarrow> proj_name p = pr)
       \<and> (length pr > 50 \<longrightarrow>
            proj_name p = take 47 pr @ js ''...'' \<and> length (proj_name p) = 50)"
proof -
  have "callGenerativeModel r newId pr fw = Inr p"
    using assms by (rule generateProject_Inr)
  from callGenerativeModel_Inr[OF this] have "proj_name p = projectName pr" by auto
  then show ?thesis by (auto simp: projectName_def js_def)
qed

theorem generated_name_witness:
  "length (js ''Build a blog with comments'') \<le> 50
   \<and> generateProject (Response example_response) (js ''id1'') (js ''Build a blog with comments'')
        example_framework [] =
      Inr \<lparr>proj_id = js ''id1'', proj_name = js ''Build a blog with comments'',
           proj_prompt = js ''Build a blog with comments'', proj_framework = example_framework,
           files = example_files, dependencies = [js ''Serilog''],
           explanation = js ''Added logging'', build_commands = [js ''dotnet build'']\<rparr>
   \<and> length long_prompt > 50
   \<and> generateProject (Response example_response) (js ''id2'') long_prompt example_framework [] =
      Inr \<lparr>proj_id = js ''id2'',
           proj_name = js ''Build an online store with a catalogue, a cart ...'',
           proj_prompt = long_prompt, proj_framework = example_framework,
           files = example_files, dependencies = [js ''Serilog''],
           explanation = js ''Added logging'', build_commands = [js ''dotnet build'']\<rparr>"
proof -
  let ?short = "js ''Build a blog with comments''"
  have g1: "generateProject (Response example_response) (js ''id1'') ?short example_framework []
      = Inr \<lparr>proj_id = js ''id1'', proj_name = projectName ?short,
           proj_prompt = ?short, proj_framework = example_framework,
           files = example_files, dependencies = [js ''Serilog''],
           explanation = js ''Added logging'', build_commands = [js ''dotnet build'']\<rparr>"
    by (rule generateProject_example)
  have g2: "generateProject (Response example_response) (js ''id2'') long_prompt
        example_framework []
      = Inr \<lparr>proj_id = js ''id2'', proj_name = projectName long_prompt,
           proj_prompt = long_prompt, proj_framework = example_framework,
           files = example_files, dependencies = [js ''Serilog''],
           explanation = js ''Added logging'', build_commands = [js ''dotnet build'']\<rparr>"
    by (rule generateProject_example)
  have l1: "length ?short \<le> 50" by (simp add: js_def)
  have l2: "length long_prompt > 50" by (simp add: long_prompt_def js_def)
  have "take 47 long_prompt @ js ''...''
      = js ''Build an online store with a catalogue, a cart ...''"
    by (simp add: long_prompt_def js_def)
  then show ?thesis
    using l1 l2 g1 g2 generated_name[OF g1] generated_name[OF g2] by simp
qed

subsection \<open>What the file dictionary holds\<close>

text \<open>
  C10. For every file array of a response, each entry of the resulting dictionary has a
  non-empty path and a non-empty content that come from an entry of the array; the
  entries of the array that lack a path or a content, or have the empty string for either,
  are dropped (an entry counts exactly when both are present and non-empty, and the
  dictionary of the array is the dictionary of its counting entries); no path occurs
  twice, and the content under a path is that of the last counting entry with that path.
  Hence every key and every value of \<open>files\<close> in a project returned by \<open>generateProject\<close> or
  \<open>modifyProject\<close> is a non-empty string.
\<close>

theorem files_entries_valid:
  "(\<forall>(k, v) \<in> set (filesDictionary fs).
       k \<noteq> [] \<and> v \<noteq> [] \<and> (\<exists>f \<in> set fs. path f = Some k \<and> content f = Some v))
   \<and> (validEntry f \<longleftrightarrow> (\<exists>p c. path f = Some p \<and> content f = Some c \<and> p \<noteq> [] \<and> c \<noteq> []))
   \<and> filesDictionary (filter validEntry fs) = filesDictionary fs
   \<and> distinct (map fst (filesDictionary fs))
   \<and> (map_of (filesDictionary fs) k' = Some v' \<longrightarrow> lastContent fs k' = Some v')
   \<and> (generateProject r newId pr fw features = Inr p \<longrightarrow>
        (\<forall>(k, v) \<in> set (files p). k \<noteq> [] \<and> v \<noteq> []))
   \<and> (modifyProject r newId' instruction existingProject = Inr p' \<longrightarrow>
        (\<forall>(k, v) \<in> set (files p'). k \<noteq> [] \<and> v \<noteq> []))"
proof (intro conjI impI)
  show "\<forall>(k, v) \<in> set (filesDictionary fs).
       k \<noteq> [] \<and> v \<noteq> [] \<and> (\<exists>f \<in> set fs. path f = Some k \<and> content f = Some v)"
    using filesDictionary_entry by blast
next
  show "validEntry f \<longleftrightarrow> (\<exists>p c. path f = Some p \<and> content f = Some c \<and> p \<noteq> [] \<and> c \<noteq> [])"
    unfolding validEntry_def by (cases "path f"; cases "content f") simp_all
next
  show "filesDictionary (filter validEntry fs) = filesDictionary fs"
    by (rule filesDictionary_filter)
next
  show "distinct (map fst (filesDictionary fs))"
    by (rule distinct_filesDictionary)
next
  assume "map_of (filesDictionary fs) k' = Some v'"
  then show "lastContent fs k' = Some v'"
    by (simp add: map_of_filesDictionary split: if_splits)
next
  assume "generateProject r newId pr fw features = Inr p"
  then have "callGenerativeModel r newId pr fw = Inr p"
    by (rule generateProject_Inr)
  from callGenerativeModel_files[OF this] obtain fs' where
    "files p = filesDictionary fs'" by auto
  then show "\<forall>(k, v) \<in> set (files p). k \<noteq> [] \<and> v \<noteq> []"
    using filesDictionary_entry by fastforce
next
  assume "modifyProject r newId' instruction existingProject = Inr p'"
  from modifyProject_Inr[OF this] obtain core where core:
    "callGenerativeModel r newId' (proj_prompt existingProject) (proj_framework existingProject)
       = Inr core"
    "files p' = files core"
    by auto
  from callGenerativeModel_files[OF core(1)] core(2) obtain fs' where
    "files p' = filesDictionary fs'" by auto
  then show "\<forall>(k, v) \<in> set (files p'). k \<noteq> [] \<and> v \<noteq> []"
    using filesDictionary_entry by fastforce
qed

theorem files_entries_valid_witness:
  "filesDictionary (raw_files example_response) = example_files
   \<and> map_of (filesDictionary (raw_files example_response)) (js ''a.cs'') = Some (js ''class A2'')
   \<and> lastContent (raw_files example_response) (js ''a.cs'') = Some (js ''class A2'')
   \<and> generateProject (Response example_response) (js ''id1'') (js ''Build a blog with comments'')
        example_framework [] = Inr example_generated
   \<and> list_all (\<lambda>(k, v). k \<noteq> [] \<and> v \<noteq> []) (files example_generated)"
proof -
  have m: "map_of (filesDictionary (raw_files example_response)) (js ''a.cs'')
      = Some (js ''class A2'')"
    by (simp add: filesDictionary_example) (simp add: example_files_def js_def)
  have g: "generateProject (Response example_response) (js ''id1'')
      (js ''Build a blog with comments'') example_framework [] = Inr example_generated"
    by (rule generateProject_example_generated)
  have "\<forall>(k, v) \<in> set (files example_generated). k \<noteq> [] \<and> v \<noteq> []"
    using g files_entries_valid[of "raw_files example_response" _ "js ''a.cs''"
        "js ''class A2''" "Response example_response" "js ''id1''"
        "js ''Build a blog with comments''" example_framework "[]" example_generated]
    by simp
  then have l: "list_all (\<lambda>(k, v). k \<noteq> [] \<and> v \<noteq> []) (files example_generated)"
    by (simp add: list_all_iff)
  show ?thesis
    using m g l
      files_entries_valid[of "raw_files example_response" _ "js ''a.cs''" "js ''class A2''"]
    by (simp add: filesDictionary_example)
qed

section \<open>Project History Store\<close>

lemma findIndex_None_iff: "findIndex P xs = None \<longleftrightarrow> (\<forall>x \<in> set xs. \<not> P x)"
  by (induction xs) auto

lemma findIndex_SomeD:
  "findIndex P xs = Some i \<Longrightarrow> i < length xs \<and> P (xs ! i) \<and> (\<forall>j < i. \<not> P (xs ! j))"
proof (induction xs arbitrary: i)
  case Nil
  then show ?case by simp
next
  case (Cons x xs)
  show ?case
  proof (cases "P x")
    case True
    with Cons.prems show ?thesis by simp
  next
    case False
    with Cons.prems obtain k where k: "findIndex P xs = Some k" "i = Suc k" by auto
    from Cons.IH[OF k(1)] have "k < length xs" "P (xs ! k)" "\<forall>j < k. \<not> P (xs ! j)"
      by auto
    with False k(2) show ?thesis by (auto simp: less_Suc_eq_0_disj)
  qed
qed

lemma findIndex_update:
  "findIndex P xs = Some i \<Longrightarrow> P y \<Longrightarrow> findIndex P (xs[i := y]) = Some i"
proof (induction xs arbitrary: i)
  case Nil
  then show ?case by simp
next
  case (Cons x xs)
  then show ?case by (cases "P x") auto
qed

lemma getProjects_Some: "getProjects (Some projects) = projects"
  by (simp add: getProjects_def)

lemma getProjects_setItem: "getProjects (setItem True projects st) = projects"
  by (simp add: getProjects_def setItem_def)

text \<open>A write that the storage refuses leaves the store as it was; nothing reports it.\<close>

lemma saveProject_refused: "saveProject False p st = st"
  by (simp add: saveProject_def setItem_def Let_def split: option.splits)

lemma deleteProject_refused: "deleteProject False i st = st"
  by (simp add: deleteProject_def setItem_def)

subsection \<open>Saving is an upsert by id\<close>

text \<open>
  C3. For every list the store holds and every project \<open>p\<close>, with the write accepted by
  the storage: if an entry has the id of \<open>p\<close>, saving \<open>p\<close> puts \<open>p\<close> at the position of
  the first such entry and leaves the length of the list and every other position as
  they were; if no entry has that id, saving puts \<open>p\<close> in front of the entries, which
  follow in their order; and saving \<open>p\<close> twice leaves the store as saving it once does.
\<close>

theorem saveProject_upsert:
  "(proj_id p \<in> proj_id ` set (getProjects st) \<longrightarrow>
      (\<exists>i < length (getProjects st).
          proj_id (getProjects st ! i) = proj_id p
          \<and> (\<forall>j < i. proj_id (getProjects st ! j) \<noteq> proj_id p)
          \<and> getProjects (saveProject True p st) = (getProjects st)[i := p]))
   \<and> (proj_id p \<notin> proj_id ` set (getProjects st) \<longrightarrow>
        getProjects (saveProject True p st) = p # getProjects st)
   \<and> saveProject True p (saveProject True p st) = saveProject True p st"
proof (intro conjI impI)
  let ?P = "\<lambda>q. proj_id q = proj_id p"
  let ?xs = "getProjects st"
  assume "proj_id p \<in> proj_id ` set ?xs"
  then have "findIndex ?P ?xs \<noteq> None"
    by (auto simp: findIndex_None_iff)
  then obtain i where i: "findIndex ?P ?xs = Some i" by auto
  from findIndex_SomeD[OF i]
  have "i < length ?xs" "proj_id (?xs ! i) = proj_id p" "\<forall>j < i. proj_id (?xs ! j) \<noteq> proj_id p"
    by auto
  moreover have "getProjects (saveProject True p st) = ?xs[i := p]"
    using i by (simp add: saveProject_def getProjects_setItem)
  ultimately show "\<exists>i < length ?xs. proj_id (?xs ! i) = proj_id p
          \<and> (\<forall>j < i. proj_id (?xs ! j) \<noteq> proj_id p)
          \<and> getProjects (saveProject True p st) = ?xs[i := p]"
    by blast
next
  let ?P = "\<lambda>q. proj_id q = proj_id p"
  assume "proj_id p \<notin> proj_id ` set (getProjects st)"
  then have "findIndex ?P (getProjects st) = None"
    unfolding findIndex_None_iff by (metis imageI)
  then show "getProjects (saveProject True p st) = p # getProjects st"
    by (simp add: saveProject_def getProjects_setItem)
next
  let ?P = "\<lambda>q. proj_id q = proj_id p"
  let ?xs = "getProjects st"
  show "saveProject True p (saveProject True p st) = saveProject True p st"
  proof (cases "findIndex ?P ?xs")
    case None
    then have once: "saveProject True p st = Some (p # ?xs)"
      by (simp add: saveProject_def setItem_def)
    show ?thesis
      unfolding once by (simp add: saveProject_def setItem_def getProjects_def)
  next
    case (Some i)
    then have once: "saveProject True p st = Some (?xs[i := p])"
      by (simp add: saveProject_def setItem_def)
    have "findIndex ?P (?xs[i := p]) = Some i"
      using Some by (rule findIndex_update) simp
    then show ?thesis
      unfolding once by (simp add: saveProject_def setItem_def getProjects_def)
  qed
qed

theorem saveProject_upsert_witness:
  "proj_id (stored ''p2'' ''changed'') \<in> proj_id ` set (getProjects example_storage)
   \<and> getProjects (saveProject True (stored ''p2'' ''changed'') example_storage)
       = [stored ''p1'' ''first'', stored ''p2'' ''changed'', stored ''p3'' ''third'']
   \<and> proj_id (stored ''p4'' ''new'') \<notin> proj_id ` set (getProjects example_storage)
   \<and> getProjects (saveProject True (stored ''p4'' ''new'') example_storage)
       = [stored ''p4'' ''new'', stored ''p1'' ''first'', stored ''p2'' ''second'',
          stored ''p3'' ''third'']
   \<and> saveProject True (stored ''p4'' ''new'')
        (saveProject True (stored ''p4'' ''new'') example_storage)
       = saveProject True (stored ''p4'' ''new'') example_storage"
proof -
  have ids: "proj_id (stored ''p2'' ''changed'') \<in> proj_id ` set (getProjects example_storage)"
    "proj_id (stored ''p4'' ''new'') \<notin> proj_id ` set (getProjects example_storage)"
    by (simp_all add: example_storage_def getProjects_def stored_def js_def)
  have "findIndex (\<lambda>q. proj_id q = proj_id (stored ''p2'' ''changed''))
          (getProjects example_storage) = Some 1"
    by (simp add: example_storage_def getProjects_def stored_def js_def)
  then have "getProjects (saveProject True (stored ''p2'' ''changed'') example_storage)
       = [stored ''p1'' ''first'', stored ''p2'' ''changed'', stored ''p3'' ''third'']"
    by (simp add: saveProject_def getProjects_setItem)
       (simp add: example_storage_def getProjects_def)
  then show ?thesis
    using ids
      saveProject_upsert[of "stored ''p2'' ''changed''" example_storage]
      saveProject_upsert[of "stored ''p4'' ''new''" example_storage]
    by (simp add: example_storage_def getProjects_def)
qed

section \<open>Workspace Controller\<close>

subsection \<open>The sample run\<close>

lemma getAgentById_simps:
  "getAgentById (js ''team_leader'')
     = Some (agent ''team_leader'' ''Team Leader'' ''Project Manager''
               ''from-yellow-500 to-orange-500'')"
  "getAgentById (js ''coder'')
     = Some (agent ''coder'' ''AI Coder'' ''Backend Developer'' ''from-blue-500 to-cyan-500'')"
  "getAgentById (js ''frontend'')
     = Some (agent ''frontend'' ''UI Architect'' ''UI/UX Developer''
               ''from-pink-500 to-rose-500'')"
  "getAgentById (js ''database'')
     = Some (agent ''database'' ''Database Admin'' ''Data Architect''
               ''from-green-500 to-emerald-500'')"
  by (simp_all add: getAgentById_def AI_AGENTS_def agent_def js_def)

lemma withAgents_eq:
  "withAgents body s =
     body (agent ''team_leader'' ''Team Leader'' ''Project Manager''
             ''from-yellow-500 to-orange-500'')
          (agent ''coder'' ''AI Coder'' ''Backend Developer'' ''from-blue-500 to-cyan-500'')
          (agent ''frontend'' ''UI Architect'' ''UI/UX Developer'' ''from-pink-500 to-rose-500'')
          (agent ''database'' ''Database Admin'' ''Data Architect''
             ''from-green-500 to-emerald-500'')"
  by (simp add: withAgents_def getAgentById_simps)

lemma previewableFiles_eq:
  "previewableFiles s =
     (case activeProject s of None \<Rightarrow> []
      | Some project \<Rightarrow> filter previewable (objectKeys (files project)))"
  unfolding previewableFiles_def previewable_def ..

lemma previewable_nonempty: "previewable k \<Longrightarrow> k \<noteq> []"
  by (auto simp: previewable_def endsWith_def js_def)

lemma firstOrNull_filter:
  "firstOrNull (filter previewable xs) = find previewable xs"
  by (induction xs) (auto simp: firstOrNull_def previewable_nonempty)

lemma objectKeys_example:
  "objectKeys example_files = [js ''b.cs'', js ''a.cs'', js ''Views/Home.cshtml'']"
  by (simp add: objectKeys_def example_files_def js_def isArrayIndex_def isDigit_def)

lemma previewable_example:
  "\<not> previewable (js ''b.cs'')" "\<not> previewable (js ''a.cs'')"
  "previewable (js ''Views/Home.cshtml'')"
  by (simp_all add: previewable_def endsWith_def js_def)

lemma example_ids:
  "findIndex (\<lambda>p. proj_id p = proj_id example_generated) (getProjects example_storage) = None"
  by (simp add: example_storage_def getProjects_def stored_def example_generated_def js_def)

lemma example_configured_eq:
  "example_configured =
     \<lparr> appState = configuring, isDarkMode = False, errorMessage = [],
       prompt = js ''Build a blog with comments'',
       selectedFramework = Some example_framework, selectedFeatures = [],
       projectHistory = getProjects example_storage,
       activeProject = None, activeAgents = [], agentLogs = [], selectedFile = None,
       activeWorkspaceTab = tab_assistant, assistantPrompt = [], chatHistory = [],
       isModifying = False, selectedPreviewFile = None, localStorage = example_storage,
       sent = [], awaiting = [], simulations = [] \<rparr>"
  by (simp add: example_configured_def initial_def loadProjects_def startNewProjectFlow_def
        resetConfiguration_def selectFramework_def)

lemma example_generating_eq:
  "example_generating =
     \<lparr> appState = generating, isDarkMode = False, errorMessage = [],
       prompt = js ''Build a blog with comments'',
       selectedFramework = Some example_framework, selectedFeatures = [],
       projectHistory = getProjects example_storage,
       activeProject = None, activeAgents = [js ''team_leader''],
       agentLogs = [(getAgentById (js ''team_leader''), js ''Analyzing project requirements...'')],
       selectedFile = None,
       activeWorkspaceTab = tab_assistant, assistantPrompt = [], chatHistory = [],
       isModifying = False, selectedPreviewFile = None, localStorage = example_storage,
       sent = [GenerateCall (js ''Build a blog with comments'') example_framework []],
       awaiting = [GenerateCall (js ''Build a blog with comments'') example_framework []],
       simulations = [1] \<rparr>"
  by (simp add: example_generating_def example_configured_eq handleGenerateProject_def
        isGenerationDisabled_def trim_example_prompt runAgentSimulation_def withAgents_def
        getAgentById_simps addAgentLog_def Let_def agent_def)

lemma example_completed_eq:
  "example_completed =
     \<lparr> appState = completed, isDarkMode = False, errorMessage = [],
       prompt = js ''Build a blog with comments'',
       selectedFramework = Some example_framework, selectedFeatures = [],
       projectHistory = example_generated # getProjects example_storage,
       activeProject = Some example_generated, activeAgents = [],
       agentLogs =
         [(getAgentById (js ''team_leader''), js ''Analyzing project requirements...''),
          (getAgentById (js ''team_leader''),
           js ''Project generation complete! Review the files below.'')],
       selectedFile = Some (js ''b.cs''),
       activeWorkspaceTab = tab_assistant, assistantPrompt = [],
       chatHistory =
         [(assistant, js (''Your project is ready! I'm your code assistant. '' @
                          ''Ask me to make changes or add features.''))],
       isModifying = False, selectedPreviewFile = Some (js ''Views/Home.cshtml''),
       localStorage = Some (example_generated # getProjects example_storage),
       sent = [GenerateCall (js ''Build a blog with comments'') example_framework []],
       awaiting = [],
       simulations = [1] \<rparr>"
proof -
  have keys: "objectKeys (files example_generated)
      = [js ''b.cs'', js ''a.cs'', js ''Views/Home.cshtml'']"
    by (simp add: example_generated_def objectKeys_example)
  have nonempty: "js ''b.cs'' \<noteq> []" "js ''Views/Home.cshtml'' \<noteq> []"
    by (simp_all add: js_def)
  show ?thesis
    by (simp add: example_completed_def example_generating_eq settle_def generateSettled_def
          generateProject_example_generated saveProject_def example_ids setItem_def
          loadProjects_def addAgentLog_def initializeWorkspace_def selectFile_def
          previewableFiles_eq keys previewable_example firstOrNull_def nonempty Let_def
          getProjects_Some)
qed

lemma handleModificationRequest_guard:
  "trim (assistantPrompt s) = [] \<or> activeProject s = None \<or> isModifying s \<Longrightarrow>
     handleModificationRequest s = s"
  by (simp add: handleModificationRequest_def Let_def)

lemma handleModificationRequest_started:
  assumes "trim (assistantPrompt s) \<noteq> []" "activeProject s = Some currentProject"
    "\<not> isModifying s"
  shows "handleModificationRequest s =
     s\<lparr>isModifying := True,
       chatHistory := chatHistory s @ [(user, trim (assistantPrompt s))],
       assistantPrompt := [],
       sent := sent s @ [ModifyCall (trim (assistantPrompt s)) currentProject],
       awaiting := awaiting s @ [ModifyCall (trim (assistantPrompt s)) currentProject]\<rparr>"
  using assms by (simp add: handleModificationRequest_def Let_def)

lemma example_modifying_eq:
  "example_modifying =
     example_completed
       \<lparr>isModifying := True,
        chatHistory := chatHistory example_completed @ [(user, js ''add logging'')],
        assistantPrompt := [],
        sent := sent example_completed @ [ModifyCall (js ''add logging'') example_generated],
        awaiting := [ModifyCall (js ''add logging'') example_generated]\<rparr>"
proof -
  let ?s = "fire (SetAssistantPrompt (js '' add logging '')) example_completed"
  have "trim (assistantPrompt ?s) \<noteq> []" "activeProject ?s = Some example_generated"
    "\<not> isModifying ?s"
    by (simp_all add: example_completed_eq trim_example_prompt)
  from handleModificationRequest_started[OF this]
  show ?thesis
    by (simp add: example_modifying_def) (simp add: example_completed_eq trim_example_prompt)
qed

lemma reachable_examples:
  "reachable example_completed" "reachable example_modifying"
proof -
  have "reachable example_configured"
    unfolding example_configured_def by (intro reachable.intros)
  then have "reachable example_generating"
    unfolding example_generating_def by (rule reachable.after)
  then show c: "reachable example_completed"
    unfolding example_completed_def by (rule reachable.after)
  show "reachable example_modifying"
    unfolding example_modifying_def by (intro reachable.after c)
qed

subsection \<open>The generate action and its guard\<close>

text \<open>
  C4. In every state in which the trimmed prompt has fewer than 10 characters or no
  framework is selected, the generate action does nothing: the whole state is as before,
  so the app state is not changed, no call to the Generation Client is made or left
  pending, and no error is set.
\<close>

theorem generate_guard:
  assumes "length (trim (prompt s)) < 10 \<or> selectedFramework s = None"
  shows "handleGenerateProject s = s
       \<and> appState (handleGenerateProject s) = appState s
       \<and> sent (handleGenerateProject s) = sent s
       \<and> awaiting (handleGenerateProject s) = awaiting s
       \<and> errorMessage (handleGenerateProject s) = errorMessage s"
  using assms by (simp add: handleGenerateProject_def isGenerationDisabled_def)

theorem generate_guard_witness:
  "length (trim (prompt example_short)) < 10
   \<and> selectedFramework example_short = Some example_framework
   \<and> appState example_short = configuring
   \<and> handleGenerateProject example_short = example_short
   \<and> selectedFramework example_unselected = None
   \<and> length (trim (prompt example_unselected)) = 26
   \<and> handleGenerateProject example_unselected = example_unselected"
proof -
  have short: "trim (js ''  a blog   '') = js ''a blog''" "length (js ''a blog'') = 6"
    by (simp_all add: js_def trim_def isWhiteSpace_def)
  have s1: "prompt example_short = js ''  a blog   ''"
    "selectedFramework example_short = Some example_framework"
    "appState example_short = configuring"
    by (simp_all add: example_short_def example_configured_eq)
  have s2: "prompt example_unselected = js ''Build a blog with comments''"
    "selectedFramework example_unselected = None"
    by (simp_all add: example_unselected_def initial_def startNewProjectFlow_def
          resetConfiguration_def loadProjects_def)
  have h1: "length (trim (prompt example_short)) < 10 \<or> selectedFramework example_short = None"
    by (simp add: s1 short)
  have h2: "length (trim (prompt example_unselected)) < 10
      \<or> selectedFramework example_unselected = None"
    by (simp add: s2)
  show ?thesis
    using generate_guard[OF h1] generate_guard[OF h2]
    by (simp add: s1 s2 short trim_example_prompt)
qed

text \<open>With the guard passed, the action enters \<open>generating\<close> and makes one call.\<close>

lemma handleGenerateProject_enabled:
  assumes "10 \<le> length (trim (prompt s))" "selectedFramework s = Some framework"
  shows "appState (handleGenerateProject s) = generating"
    "sent (handleGenerateProject s) =
       sent s @ [GenerateCall (prompt s) framework
                   (filter (\<lambda>f. ft_id f \<in> set (selectedFeatures s)) allFeatures)]"
  using assms
  by (simp_all add: handleGenerateProject_def isGenerationDisabled_def runAgentSimulation_def
        withAgents_eq addAgentLog_def Let_def)

subsection \<open>Initialising the workspace\<close>

text \<open>
  C5, as the code has it. For every active project with a non-empty \<open>files\<close>,
  initialising the workspace selects for the code view the first key of \<open>files\<close> in the
  order of \<open>Object.keys\<close> (none when that key is the empty string, which no generated
  project has); that order is the order in which the paths were first stored from the
  response whenever no path is an array index, and it is not sorted. For live preview it
  selects the first key in the same order that ends in \<open>.html\<close> or \<open>.cshtml\<close>, and none
  exactly when no key does.
\<close>

theorem initializeWorkspace_selection:
  assumes "activeProject s = Some p" and "files p \<noteq> []"
  shows "(\<exists>k ks. objectKeys (files p) = k # ks
            \<and> selectedFile (initializeWorkspace isNew s) = (if k = [] then None else Some k))
       \<and> (list_all (\<lambda>k. \<not> isArrayIndex k) (map fst (files p)) \<longrightarrow>
            objectKeys (files p) = map fst (files p))
       \<and> selectedPreviewFile (initializeWorkspace isNew s)
           = find previewable (objectKeys (files p))
       \<and> (selectedPreviewFile (initializeWorkspace isNew s) = None \<longleftrightarrow>
            \<not> (\<exists>k \<in> fst ` set (files p). previewable k))"
proof (intro conjI impI)
  have "length (objectKeys (files p)) \<noteq> 0"
    using assms(2) by (simp add: length_objectKeys)
  then obtain k ks where k: "objectKeys (files p) = k # ks"
    by (cases "objectKeys (files p)") auto
  have "selectedFile (initializeWorkspace isNew s) = firstOrNull (objectKeys (files p))"
    using assms(1) by (simp add: initializeWorkspace_def selectFile_def Let_def)
  then show "\<exists>k ks. objectKeys (files p) = k # ks
            \<and> selectedFile (initializeWorkspace isNew s) = (if k = [] then None else Some k)"
    using k by (simp add: firstOrNull_def)
next
  assume "list_all (\<lambda>k. \<not> isArrayIndex k) (map fst (files p))"
  then show "objectKeys (files p) = map fst (files p)" by (rule objectKeys_plain)
next
  show pv: "selectedPreviewFile (initializeWorkspace isNew s)
      = find previewable (objectKeys (files p))"
    using assms(1)
    by (simp add: initializeWorkspace_def selectFile_def Let_def previewableFiles_eq
          firstOrNull_filter)
  show "selectedPreviewFile (initializeWorkspace isNew s) = None \<longleftrightarrow>
            \<not> (\<exists>k \<in> fst ` set (files p). previewable k)"
    unfolding pv by (simp add: find_None_iff set_objectKeys)
qed

theorem initializeWorkspace_selection_witness:
  "activeProject example_completed = Some example_generated
   \<and> files example_generated \<noteq> []
   \<and> objectKeys (files example_generated) = [js ''b.cs'', js ''a.cs'', js ''Views/Home.cshtml'']
   \<and> selectedFile (initializeWorkspace True example_completed) = Some (js ''b.cs'')
   \<and> selectedPreviewFile (initializeWorkspace True example_completed)
       = Some (js ''Views/Home.cshtml'')"
proof -
  have a: "activeProject example_completed = Some example_generated"
    by (simp add: example_completed_eq)
  have b: "files example_generated \<noteq> []"
    by (simp add: example_generated_def example_files_def)
  have keys: "objectKeys (files example_generated)
      = [js ''b.cs'', js ''a.cs'', js ''Views/Home.cshtml'']"
    by (simp add: example_generated_def objectKeys_example)
  have "js ''b.cs'' \<noteq> []" by (simp add: js_def)
  then show ?thesis
    using a b keys initializeWorkspace_selection[OF a b, of True]
    by (simp add: previewable_example)
qed

text \<open>
  C5 as stated fails. The sample response lists \<open>b.cs\<close> before \<open>a.cs\<close> and
  \<open>Views/Home.cshtml\<close>. After its generation the code view shows \<open>b.cs\<close>, the first path
  of the response, whereas the first path in sorted order is \<open>Views/Home.cshtml\<close> (and
  \<open>a.cs\<close>, too, comes before \<open>b.cs\<close>).
\<close>

theorem initializeWorkspace_sorted_counterexample:
  "activeProject example_completed = Some example_generated
   \<and> files example_generated \<noteq> []
   \<and> selectedFile example_completed = Some (js ''b.cs'')
   \<and> selectedFile (initializeWorkspace True example_completed) = Some (js ''b.cs'')
   \<and> firstInPathOrder (files example_generated) = Some (js ''Views/Home.cshtml'')
   \<and> js ''a.cs'' \<in> set (objectKeys (files example_generated))
   \<and> js ''a.cs'' < js ''b.cs''
   \<and> selectedFile (initializeWorkspace True example_completed)
       \<noteq> firstInPathOrder (files example_generated)"
proof -
  have keys: "objectKeys (files example_generated)
      = [js ''b.cs'', js ''a.cs'', js ''Views/Home.cshtml'']"
    by (simp add: example_generated_def objectKeys_example)
  have first: "firstInPathOrder (files example_generated) = Some (js ''Views/Home.cshtml'')"
    unfolding firstInPathOrder_def keys by (simp add: js_def)
  have sel: "selectedFile (initializeWorkspace True example_completed) = Some (js ''b.cs'')"
    by (simp add: initializeWorkspace_def selectFile_def Let_def example_completed_eq keys
          firstOrNull_def) (simp add: js_def)
  have "js ''a.cs'' < js ''b.cs''" "js ''b.cs'' \<noteq> js ''Views/Home.cshtml''"
    by (simp_all add: js_def)
  then show ?thesis
    using first sel keys
    by (simp add: example_completed_eq) (simp add: example_generated_def example_files_def)
qed

subsection \<open>Modification requests\<close>

lemma generateSettled_frame:
  "awaiting (generateSettled r newId accepted p fw features s) = awaiting s"
  "isModifying (generateSettled r newId accepted p fw features s) = isModifying s"
  by (simp_all add: generateSettled_def generateFailed_def initializeWorkspace_def
        selectFile_def addAgentLog_def loadProjects_def Let_def split: sum.splits)

lemma modificationSettled_frame:
  "awaiting (modificationSettled r newId accepted userPrompt currentProject s) = awaiting s"
  "isModifying (modificationSettled r newId accepted userPrompt currentProject s) = False"
  by (simp_all add: modificationSettled_def modificationFailed_def loadProjects_def Let_def
        split: sum.splits)

lemma resumeAgentSimulation_frame:
  "awaiting (resumeAgentSimulation i s) = awaiting s"
  "isModifying (resumeAgentSimulation i s) = isModifying s"
  by (simp_all add: resumeAgentSimulation_def simulationStage_def withAgents_eq addAgentLog_def
        Let_def)

lemma handleGenerateProject_frame:
  "filter isModifyCall (awaiting (handleGenerateProject s)) = filter isModifyCall (awaiting s)"
  "isModifying (handleGenerateProject s) = isModifying s"
  by (simp_all add: handleGenerateProject_def runAgentSimulation_def withAgents_eq
        addAgentLog_def generateFailed_def Let_def split: option.splits)

lemma loadProject_frame:
  "awaiting (loadProject i s) = awaiting s"
  "isModifying (loadProject i s) = isModifying s"
  by (simp_all add: loadProject_def initializeWorkspace_def selectFile_def Let_def
        split: option.splits)

lemma deleteProject_component_frame:
  "awaiting (deleteProject_component accepted i s) = awaiting s"
  "isModifying (deleteProject_component accepted i s) = isModifying s"
  by (simp_all add: deleteProject_component_def setAppState_def loadProjects_def Let_def)

lemma setAppState_frame:
  "awaiting (setAppState state s) = awaiting s"
  "isModifying (setAppState state s) = isModifying s"
  by (simp_all add: setAppState_def resetConfiguration_def Let_def)

lemma filter_remove_nth:
  assumes "i < length xs"
  shows "length (filter P (take i xs @ drop (Suc i) xs))
       = length (filter P xs) - (if P (xs ! i) then 1 else 0)"
proof -
  have "xs = take i xs @ xs ! i # drop (Suc i) xs"
    using assms by (rule id_take_nth_drop)
  then have "filter P xs = filter P (take i xs) @ filter P (xs ! i # drop (Suc i) xs)"
    by (metis filter_append)
  then show ?thesis by simp
qed

text \<open>
  Every event keeps the flag \<open>isModifying\<close> in step with the modification calls in
  flight: only the request sets the flag, and it adds one call; only the settling of a
  modification call clears it, and it removes that call.
\<close>

lemma balanced_fire: "balanced s \<Longrightarrow> balanced (fire e s)"
proof (cases e)
  case (Settle i r newId accepted)
  assume b: "balanced s"
  show ?thesis
  proof (cases "i < length (awaiting s)")
    case False
    then show ?thesis using b Settle by (simp add: settle_def)
  next
    case True
    show ?thesis
    proof (cases "awaiting s ! i")
      case (GenerateCall p fw features)
      then show ?thesis
        using b Settle True filter_remove_nth[OF True, of isModifyCall]
        by (simp add: settle_def balanced_def pendingModifications_def generateSettled_frame)
    next
      case (ModifyCall userPrompt currentProject)
      then show ?thesis
        using b Settle True filter_remove_nth[OF True, of isModifyCall]
        by (simp add: settle_def balanced_def pendingModifications_def
              modificationSettled_frame split: if_splits)
    qed
  qed
next
  case ModificationRequest
  assume b: "balanced s"
  show ?thesis
  proof (cases "trim (assistantPrompt s) = [] \<or> activeProject s = None \<or> isModifying s")
    case True
    then show ?thesis using b ModificationRequest handleModificationRequest_guard by simp
  next
    case False
    then obtain currentProject where "activeProject s = Some currentProject" by auto
    with False have "handleModificationRequest s =
     s\<lparr>isModifying := True,
       chatHistory := chatHistory s @ [(user, trim (assistantPrompt s))],
       assistantPrompt := [],
       sent := sent s @ [ModifyCall (trim (assistantPrompt s)) currentProject],
       awaiting := awaiting s @ [ModifyCall (trim (assistantPrompt s)) currentProject]\<rparr>"
      by (intro handleModificationRequest_started) auto
    then show ?thesis
      using b False ModificationRequest by (simp add: balanced_def pendingModifications_def)
  qed
qed (simp_all add: balanced_def pendingModifications_def handleGenerateProject_frame
       resumeAgentSimulation_frame loadProject_frame deleteProject_component_frame
       setAppState_frame startNewProjectFlow_def resetConfiguration_def toggleDarkMode_def
       selectFramework_def toggleFeature_def selectFile_def)

lemma balanced_initial: "balanced (initial dark st)"
  by (simp add: balanced_def pendingModifications_def initial_def loadProjects_def)

lemma reachable_balanced: "reachable s \<Longrightarrow> balanced s"
  by (induction rule: reachable.induct) (simp_all add: balanced_initial balanced_fire)

text \<open>
  C6. In every state in which the trimmed instruction is empty, or no project is active,
  or a modification is in flight (the flag \<open>isModifying\<close>), the modification request does
  nothing: the whole state is as before, so no chat message is appended and no call to
  the Generation Client is made. Hence in every state the component can reach, at most
  one modification call is in flight, and one is exactly when the flag is set.
\<close>

theorem modification_guard:
  "(trim (assistantPrompt s) = [] \<or> activeProject s = None \<or> isModifying s \<longrightarrow>
      handleModificationRequest s = s
      \<and> chatHistory (handleModificationRequest s) = chatHistory s
      \<and> sent (handleModificationRequest s) = sent s
      \<and> awaiting (handleModificationRequest s) = awaiting s)
   \<and> (reachable s' \<longrightarrow> pendingModifications s' \<le> 1
        \<and> (isModifying s' \<longleftrightarrow> pendingModifications s' = 1))"
proof (intro conjI impI)
  assume "reachable s'"
  then have "balanced s'" by (rule reachable_balanced)
  then show "pendingModifications s' \<le> 1" "isModifying s' \<longleftrightarrow> pendingModifications s' = 1"
    by (simp_all add: balanced_def split: if_splits)
qed (simp_all add: handleModificationRequest_guard)

theorem modification_guard_witness:
  "isModifying example_modifying
   \<and> handleModificationRequest example_modifying = example_modifying
   \<and> reachable example_modifying
   \<and> pendingModifications example_modifying = 1
   \<and> trim (assistantPrompt example_completed) = []
   \<and> handleModificationRequest example_completed = example_completed
   \<and> activeProject example_configured = None
   \<and> handleModificationRequest example_configured = example_configured
   \<and> sent (fire ModificationRequest
             (fire (SetAssistantPrompt (js ''add tests'')) example_modifying))
       = sent example_completed @ [ModifyCall (js ''add logging'') example_generated]"
proof -
  have m: "isModifying example_modifying"
    by (simp add: example_modifying_eq)
  have c: "trim (assistantPrompt example_completed) = []"
    by (simp add: example_completed_eq trim_def)
  have f: "activeProject example_configured = None"
    by (simp add: example_configured_eq)
  have p: "pendingModifications example_modifying = 1"
    by (simp add: example_modifying_eq pendingModifications_def)
  have again: "isModifying (fire (SetAssistantPrompt (js ''add tests'')) example_modifying)"
    by (simp add: example_modifying_eq)
  have s: "sent example_modifying
      = sent example_completed @ [ModifyCall (js ''add logging'') example_generated]"
    by (simp add: example_modifying_eq)
  show ?thesis
    using m c f p s reachable_examples(2)
      modification_guard[of example_modifying example_modifying]
      modification_guard[of example_completed example_modifying]
      modification_guard[of example_configured example_modifying]
      modification_guard[of "fire (SetAssistantPrompt (js ''add tests'')) example_modifying"
        example_modifying] again
    by simp
qed

subsection \<open>A modification that fails\<close>

text \<open>
  C7. When the modification call that a request awaits fails, settling it sets the
  global error to the message of the failure and appends to the chat an assistant message
  carrying the same message; the active project, the app state, the store and the
  history list are as before, and the flag \<open>isModifying\<close> is cleared.
\<close>

theorem modification_failure_surfaced:
  assumes "i < length (awaiting s)"
    and "awaiting s ! i = ModifyCall userPrompt currentProject"
    and "modifyProject r newId userPrompt currentProject = Inl e"
  shows "errorMessage (settle i r newId accepted s) = message e
       \<and> message e \<noteq> []
       \<and> chatHistory (settle i r newId accepted s)
           = chatHistory s @ [(assistant, js ''I encountered an error: '' @ message e)]
       \<and> activeProject (settle i r newId accepted s) = activeProject s
       \<and> appState (settle i r newId accepted s) = appState s
       \<and> localStorage (settle i r newId accepted s) = localStorage s
       \<and> projectHistory (settle i r newId accepted s) = projectHistory s
       \<and> isModifying (settle i r newId accepted s) = False"
proof -
  have e: "message e = modificationFailure"
    using modifyProject_Inl[OF assms(3)] by simp
  have ne: "modificationFailure \<noteq> []"
    by (simp add: modificationFailure_def js_def)
  show ?thesis
    using assms e ne
    by (simp add: settle_def modificationSettled_def modificationFailed_def orElse_def Let_def)
qed

theorem modification_failure_surfaced_witness:
  "0 < length (awaiting example_modifying)
   \<and> awaiting example_modifying ! 0 = ModifyCall (js ''add logging'') example_generated
   \<and> modifyProject (Failure (js ''503'')) (js ''id2'') (js ''add logging'') example_generated
       = Inl (Error modificationFailure)
   \<and> errorMessage example_failed = modificationFailure
   \<and> chatHistory example_failed
       = chatHistory example_modifying
         @ [(assistant, js ''I encountered an error: '' @ modificationFailure)]
   \<and> activeProject example_failed = Some example_generated
   \<and> appState example_failed = completed
   \<and> isModifying example_failed = False"
proof -
  have a: "0 < length (awaiting example_modifying)"
    and b: "awaiting example_modifying ! 0 = ModifyCall (js ''add logging'') example_generated"
    by (simp_all add: example_modifying_eq)
  have c: "modifyProject (Failure (js ''503'')) (js ''id2'') (js ''add logging'')
      example_generated = Inl (Error modificationFailure)"
    by (simp add: modifyProject_def callGenerativeModel_def)
  have d: "activeProject example_modifying = Some example_generated"
    "appState example_modifying = completed"
    by (simp_all add: example_modifying_eq) (simp_all add: example_completed_eq)
  show ?thesis
    using a b c d modification_failure_surfaced[OF a b c, of True]
    by (simp add: example_failed_def)
qed

subsection \<open>Deleting a project\<close>

text \<open>
  C9. For every id, deleting it (with the write accepted by the storage) leaves in the
  store exactly the entries with another id, in their order, so no entry with that id
  remains, and the history list of the component is that list; and if the active project
  has the deleted id, the active project is cleared and the app state is \<open>landing\<close>,
  whereas otherwise the active project and the app state stay.
\<close>

theorem deleteProject_removes:
  "getProjects (deleteProject True i st) = filter (\<lambda>q. proj_id q \<noteq> i) (getProjects st)
   \<and> i \<notin> proj_id ` set (getProjects (deleteProject True i st))
   \<and> getProjects (localStorage (deleteProject_component True i s))
       = filter (\<lambda>q. proj_id q \<noteq> i) (getProjects (localStorage s))
   \<and> projectHistory (deleteProject_component True i s)
       = filter (\<lambda>q. proj_id q \<noteq> i) (getProjects (localStorage s))
   \<and> (activeProject s = Some p \<and> proj_id p = i \<longrightarrow>
        activeProject (deleteProject_component accepted i s) = None
        \<and> appState (deleteProject_component accepted i s) = landing)
   \<and> (map_option proj_id (activeProject s) \<noteq> Some i \<longrightarrow>
        activeProject (deleteProject_component accepted i s) = activeProject s
        \<and> appState (deleteProject_component accepted i s) = appState s)"
  by (auto simp: deleteProject_def getProjects_setItem deleteProject_component_def
        loadProjects_def setAppState_def Let_def)

theorem deleteProject_removes_witness:
  "getProjects (deleteProject True (js ''p2'') duplicate_storage)
     = [stored ''p1'' ''first'', stored ''p3'' ''third'']
   \<and> activeProject example_completed = Some example_generated
   \<and> proj_id example_generated = js ''id1''
   \<and> getProjects (localStorage example_completed)
       = example_generated # getProjects example_storage
   \<and> getProjects (localStorage (deleteProject_component True (js ''id1'') example_completed))
       = getProjects example_storage
   \<and> activeProject (deleteProject_component True (js ''id1'') example_completed) = None
   \<and> appState (deleteProject_component True (js ''id1'') example_completed) = landing
   \<and> activeProject (deleteProject_component True (js ''p2'') example_completed)
       = Some example_generated
   \<and> appState (deleteProject_component True (js ''p2'') example_completed) = completed"
proof -
  have a: "activeProject example_completed = Some example_generated"
    "appState example_completed = completed"
    "localStorage example_completed = Some (example_generated # getProjects example_storage)"
    by (simp_all add: example_completed_eq)
  have b: "proj_id example_generated = js ''id1''"
    by (simp add: example_generated_def)
  have c: "filter (\<lambda>q. proj_id q \<noteq> js ''p2'') (getProjects duplicate_storage)
      = [stored ''p1'' ''first'', stored ''p3'' ''third'']"
    by (simp add: duplicate_storage_def getProjects_def stored_def js_def)
  have d: "filter (\<lambda>q. proj_id q \<noteq> js ''id1'')
        (example_generated # getProjects example_storage) = getProjects example_storage"
    by (simp add: example_storage_def getProjects_def stored_def example_generated_def js_def)
  have e: "js ''id1'' \<noteq> js ''p2''" by (simp add: js_def)
  show ?thesis
    using a b c d e
      deleteProject_removes[of "js ''p2''" duplicate_storage example_completed example_generated
        True]
      deleteProject_removes[of "js ''id1''" example_storage example_completed example_generated
        True]
    by (simp add: getProjects_Some)
qed

end
